theory Spec2Isabelle
  imports Main
begin

section \<open>Strings\<close>

text \<open>
  JavaScript strings are modelled as \<^typ>\<open>string\<close>. Rule names, operators and queries
  of the program are ASCII; case mapping and white space are modelled on ASCII, where
  they agree with \<^verbatim>\<open>String.prototype.toLowerCase\<close> and \<^verbatim>\<open>String.prototype.trim\<close>.
\<close>

definition lower_char :: "char \<Rightarrow> char" where
  "lower_char c =
     (case map_of (zip ''ABCDEFGHIJKLMNOPQRSTUVWXYZ'' ''abcdefghijklmnopqrstuvwxyz'') c of
        Some l \<Rightarrow> l
      | None \<Rightarrow> c)"

definition toLowerCase :: "string \<Rightarrow> string" where
  "toLowerCase s = map lower_char s"

text \<open>Tab, line feed, vertical tab, form feed, carriage return and space.\<close>

definition is_space :: "char \<Rightarrow> bool" where
  "is_space c \<longleftrightarrow> c \<in> set [CHR 0x09, CHR 0x0A, CHR 0x0B, CHR 0x0C, CHR 0x0D, CHR 0x20]"

definition trim :: "string \<Rightarrow> string" where
  "trim s = rev (dropWhile is_space (rev (dropWhile is_space s)))"

text \<open>\<^verbatim>\<open>s.startsWith(q)\<close> and \<^verbatim>\<open>s.includes(q)\<close>: \<open>q\<close> occurs in \<open>s\<close> as a contiguous run.\<close>

fun startsWith :: "string \<Rightarrow> string \<Rightarrow> bool" where
  "startsWith s [] = True"
| "startsWith [] (c # q) = False"
| "startsWith (x # s) (c # q) = (x = c \<and> startsWith s q)"

fun str_includes :: "string \<Rightarrow> string \<Rightarrow> bool" where
  "str_includes [] q = (q = [])"
| "str_includes (x # s) q = (startsWith (x # s) q \<or> str_includes s q)"

section \<open>The filter of the application shell (App.tsx)\<close>

text \<open>
  \<^verbatim>\<open>filterNames\<close> closes over the \<^verbatim>\<open>query\<close> state of the component; the model takes
  it as its first argument. The empty string is the only falsy string.
\<close>

definition filterNames :: "string \<Rightarrow> string list \<Rightarrow> string list" where
  "filterNames query names =
     (let q = toLowerCase (trim query)
      in if q = [] then names
         else filter (\<lambda>n. str_includes (toLowerCase n) q) names)"

text \<open>
  The filter as the specification words it: the names whose lowercased form contains the
  lowercased query, in their original order.
\<close>

definition spec_filter :: "string \<Rightarrow> string list \<Rightarrow> string list" where
  "spec_filter query names =
     filter (\<lambda>n. \<exists>p r. toLowerCase n = p @ toLowerCase query @ r) names"

section \<open>Exceptions and the calling-convention shim\<close>

text \<open>
  A thrown JavaScript value: a \<^verbatim>\<open>TypeError\<close> with its message, an error object of
  another class (class name, message), or a value that is not an error object, given
  by its string conversion.
\<close>

datatype thrown = TypeError string | OtherError string string | Primitive string

text \<open>
  An export of the diagram library is a function object with a call behaviour
  (\<^verbatim>\<open>Ctor(...args)\<close>) and a construct behaviour (\<^verbatim>\<open>new Ctor(...args)\<close>); either returns
  a value or throws.
\<close>

record ('a, 'r) ctor =
  call :: "'a \<Rightarrow> thrown + 'r"
  construct :: "'a \<Rightarrow> thrown + 'r"

text \<open>The regular expression \<^verbatim>\<open>/without 'new'/\<close>, tested against a message.\<close>

definition test_without_new :: "string \<Rightarrow> bool" where
  "test_without_new msg = str_includes msg (''without '' @ [CHR 0x27] @ ''new'' @ [CHR 0x27])"

definition callOrNew :: "('a, 'r) ctor \<Rightarrow> 'a \<Rightarrow> thrown + 'r" where
  "callOrNew Ctor args =
     (case call Ctor args of
        Inr v \<Rightarrow> Inr v
      | Inl e \<Rightarrow>
          (case e of
             TypeError msg \<Rightarrow> if test_without_new msg then construct Ctor args else Inl e
           | _ \<Rightarrow> Inl e))"

text \<open>The failure the shim recovers from: a \<^verbatim>\<open>TypeError\<close> whose message matches.\<close>

fun new_mismatch :: "thrown \<Rightarrow> bool" where
  "new_mismatch (TypeError msg) = test_without_new msg"
| "new_mismatch _ = False"

section \<open>The document\<close>

text \<open>
  The part of the DOM the renderer touches. An element has a tag, a class name, an id and
  its child nodes in order. \<open>Parsed s\<close> stands for the nodes the HTML parser builds from
  the markup \<open>s\<close> when it is assigned to \<^verbatim>\<open>innerHTML\<close>.
\<close>

datatype element = Element (tag: string) (className: string) (ident: string) (children: "node list")
  and node = Elem element | TextNode string | Parsed string

definition createElement :: "string \<Rightarrow> element" where
  "createElement t = Element t [] [] []"

definition set_className :: "element \<Rightarrow> string \<Rightarrow> element" where
  "set_className e v = Element (tag e) v (ident e) (children e)"

definition set_id :: "element \<Rightarrow> string \<Rightarrow> element" where
  "set_id e v = Element (tag e) (className e) v (children e)"

text \<open>Assigning \<^verbatim>\<open>textContent\<close> replaces all children by one text node, or by none for \<^verbatim>\<open>""\<close>.\<close>

definition set_textContent :: "element \<Rightarrow> string \<Rightarrow> element" where
  "set_textContent e s =
     Element (tag e) (className e) (ident e) (if s = [] then [] else [TextNode s])"

definition set_innerHTML :: "element \<Rightarrow> string \<Rightarrow> element" where
  "set_innerHTML e s = Element (tag e) (className e) (ident e) [Parsed s]"

definition appendChild :: "element \<Rightarrow> node \<Rightarrow> element" where
  "appendChild e n = Element (tag e) (className e) (ident e) (children e @ [n])"

section \<open>Diagram objects and their mounting\<close>

text \<open>
  What \<^verbatim>\<open>toSVG()\<close> may return: a string, a DOM node, an object that has a
  \<^verbatim>\<open>nodeType\<close> property but that \<^verbatim>\<open>appendChild\<close> refuses with the given exception, or
  anything else.
\<close>

datatype jsval = JString string | JNode node | JNodeLike thrown | JOther

text \<open>
  The value handed to \<^verbatim>\<open>mountRule\<close> as \<^verbatim>\<open>diagram\<close>. \<open>Nullish msg\<close> is \<^verbatim>\<open>null\<close> or
  \<^verbatim>\<open>undefined\<close>: reading a property of it throws a \<^verbatim>\<open>TypeError\<close>, whose message \<open>msg\<close>
  is the engine's. Any other value is an \<open>Object\<close>, seen through the three properties
  \<^verbatim>\<open>mountRule\<close> reads: each is either not a function (\<open>None\<close>) or a method with its
  outcome. \<^verbatim>\<open>addTo\<close> receives the element and leaves it changed, and may throw.
\<close>

datatype diagram =
    Nullish string
  | Object (toSVG: "(thrown + jsval) option")
           (toString: "(thrown + string) option")
           (addTo: "(element \<Rightarrow> element \<times> thrown option) option")

text \<open>\<^verbatim>\<open>e?.message ?? String(e)\<close>\<close>

fun error_text :: "thrown \<Rightarrow> string" where
  "error_text (TypeError msg) = msg"
| "error_text (OtherError cls msg) = msg"
| "error_text (Primitive s) = s"

text \<open>
  The body of the \<^verbatim>\<open>try\<close> block of \<^verbatim>\<open>mountRule\<close>: the element \<^verbatim>\<open>svgwrap\<close> as the body
  leaves it, and the exception if the body threw.
\<close>

fun try_export :: "element \<Rightarrow> diagram \<Rightarrow> element \<times> thrown option" where
  "try_export svgwrap (Nullish msg) = (svgwrap, Some (TypeError msg))"
| "try_export svgwrap (Object (Some r) ts at) =
     (case r of
        Inl e \<Rightarrow> (svgwrap, Some e)
      | Inr (JString svg) \<Rightarrow> (set_innerHTML svgwrap svg, None)
      | Inr (JNode svg) \<Rightarrow> (appendChild svgwrap svg, None)
      | Inr (JNodeLike e) \<Rightarrow> (svgwrap, Some e)
      | Inr JOther \<Rightarrow> (set_textContent svgwrap ''toSVG() returned an unexpected value.'', None))"
| "try_export svgwrap (Object None (Some r) at) =
     (case r of
        Inl e \<Rightarrow> (svgwrap, Some e)
      | Inr s \<Rightarrow> (set_innerHTML svgwrap s, None))"
| "try_export svgwrap (Object None None (Some f)) = f svgwrap"
| "try_export svgwrap (Object None None None) =
     (set_textContent svgwrap
        ''Diagram object does not support toSVG/toString/addTo in this build.'', None)"

definition mountRule :: "element \<Rightarrow> string \<Rightarrow> diagram \<Rightarrow> element" where
  "mountRule container name diagram =
     (let wrap = set_id (set_className (createElement ''div'') ''rule'') (''rule-'' @ name);
          h = set_textContent (createElement ''h3'') name;
          wrap = appendChild wrap (Elem h);
          svgwrap = set_className (createElement ''div'') ''svgwrap'';
          svgwrap =
            (case try_export svgwrap diagram of
               (svgwrap, None) \<Rightarrow> svgwrap
             | (svgwrap, Some e) \<Rightarrow> set_textContent svgwrap (''Render error: '' @ error_text e));
          wrap = appendChild wrap (Elem svgwrap)
      in appendChild container (Elem wrap))"

text \<open>
  The mounting as the specification words it: the three exports are attempted in order,
  the first that succeeds wins, and only when all have failed is the error text shown.
  An export succeeds when the method is there, returns and its result can be attached.
\<close>

fun attempt_toSVG :: "element \<Rightarrow> diagram \<Rightarrow> element option" where
  "attempt_toSVG svgwrap (Object (Some (Inr (JString svg))) ts at) = Some (set_innerHTML svgwrap svg)"
| "attempt_toSVG svgwrap (Object (Some (Inr (JNode svg))) ts at) = Some (appendChild svgwrap svg)"
| "attempt_toSVG svgwrap d = None"

fun attempt_toString :: "element \<Rightarrow> diagram \<Rightarrow> element option" where
  "attempt_toString svgwrap (Object tv (Some (Inr s)) at) = Some (set_innerHTML svgwrap s)"
| "attempt_toString svgwrap d = None"

fun attempt_addTo :: "element \<Rightarrow> diagram \<Rightarrow> element option" where
  "attempt_addTo svgwrap (Object tv ts (Some f)) =
     (case f svgwrap of (w, None) \<Rightarrow> Some w | (w, Some e) \<Rightarrow> None)"
| "attempt_addTo svgwrap d = None"

definition spec_first_success :: "element \<Rightarrow> diagram \<Rightarrow> element option" where
  "spec_first_success svgwrap d =
     (case attempt_toSVG svgwrap d of
        Some w \<Rightarrow> Some w
      | None \<Rightarrow>
          (case attempt_toString svgwrap d of
             Some w \<Rightarrow> Some w
           | None \<Rightarrow> attempt_addTo svgwrap d))"

text \<open>The \<^verbatim>\<open>svgwrap\<close> child of a mounted block: its second child.\<close>

fun svgwrap_of :: "node \<Rightarrow> node option" where
  "svgwrap_of (Elem (Element t c i [h, w])) = Some w"
| "svgwrap_of n = None"

section \<open>Diagram descriptions and the diagram library\<close>

text \<open>
  A diagram description is the tree of wrapped-primitive calls a factory makes: each
  constructor below is one of the wrappers \<^verbatim>\<open>Diagram\<close>, \<^verbatim>\<open>Sequence\<close>, ..., \<^verbatim>\<open>Comment\<close>
  of the module, applied to its arguments. \<^verbatim>\<open>Choice\<close> is always called with a number
  first; \<^verbatim>\<open>Terminal\<close>, \<^verbatim>\<open>NonTerminal\<close> and \<^verbatim>\<open>Comment\<close> with one string.
\<close>

datatype rr =
    Diagram "rr list"
  | Sequence "rr list"
  | Choice int "rr list"
  | Optional "rr list"
  | OneOrMore "rr list"
  | ZeroOrMore "rr list"
  | Terminal string
  | NonTerminal string
  | Stack "rr list"
  | Comment string

definition T :: "string \<Rightarrow> rr" where
  "T s = Terminal s"

definition NT :: "string \<Rightarrow> rr" where
  "NT s = NonTerminal s"

text \<open>The precedence-chain helper \<^verbatim>\<open>chain(base, ops)\<close>.\<close>

definition chain :: "string \<Rightarrow> string list \<Rightarrow> rr" where
  "chain base ops =
     Sequence [NT base, ZeroOrMore [Sequence [Choice 0 (map T ops), NT base]]]"

text \<open>
  The library \<^verbatim>\<open>RR\<close> is imported from outside the repository. It is a parameter of the
  model: for each primitive an export, taking numbers, strings and library objects, that
  returns a library object or throws.
\<close>

datatype prim =
    PDiagram | PSequence | PChoice | POptional | POneOrMore | PZeroOrMore
  | PTerminal | PNonTerminal | PStack | PComment

datatype arg = Num int | Str string | Obj diagram

type_synonym rr_module = "prim \<Rightarrow> (arg list, diagram) ctor"

text \<open>
  Evaluating a description against the library, as JavaScript evaluates the nested
  calls: the arguments from left to right, then the wrapper, which goes through
  \<^verbatim>\<open>callOrNew\<close>; the first exception ends the evaluation.
\<close>

definition invoke :: "rr_module \<Rightarrow> prim \<Rightarrow> arg list \<Rightarrow> thrown + diagram list \<Rightarrow> thrown + diagram" where
  "invoke RR p pre r =
     (case r of Inl e \<Rightarrow> Inl e | Inr os \<Rightarrow> callOrNew (RR p) (pre @ map Obj os))"

fun build :: "rr_module \<Rightarrow> rr \<Rightarrow> thrown + diagram"
  and build_list :: "rr_module \<Rightarrow> rr list \<Rightarrow> thrown + diagram list" where
  "build RR (Diagram a) = invoke RR PDiagram [] (build_list RR a)"
| "build RR (Sequence a) = invoke RR PSequence [] (build_list RR a)"
| "build RR (Choice n a) = invoke RR PChoice [Num n] (build_list RR a)"
| "build RR (Optional a) = invoke RR POptional [] (build_list RR a)"
| "build RR (OneOrMore a) = invoke RR POneOrMore [] (build_list RR a)"
| "build RR (ZeroOrMore a) = invoke RR PZeroOrMore [] (build_list RR a)"
| "build RR (Terminal s) = callOrNew (RR PTerminal) [Str s]"
| "build RR (NonTerminal s) = callOrNew (RR PNonTerminal) [Str s]"
| "build RR (Stack a) = invoke RR PStack [] (build_list RR a)"
| "build RR (Comment s) = callOrNew (RR PComment) [Str s]"
| "build_list RR [] = Inr []"
| "build_list RR (x # xs) =
     (case build RR x of
        Inl e \<Rightarrow> Inl e
      | Inr d \<Rightarrow> (case build_list RR xs of Inl e \<Rightarrow> Inl e | Inr ds \<Rightarrow> Inr (d # ds)))"

section \<open>Rendering a list of rules\<close>

text \<open>
  A factory takes no argument and returns a diagram object or throws. A registry maps
  rule names to factories; \<^verbatim>\<open>get\<close> of an absent name gives \<^verbatim>\<open>undefined\<close>.
\<close>

type_synonym factory = "unit \<Rightarrow> thrown + diagram"

text \<open>
  The loop of \<^verbatim>\<open>renderRuleList\<close>: the section element as the loop leaves it, and the
  exception if the loop was left by one. Neither the placeholder's construction nor the
  factory's invocation stands inside a \<^verbatim>\<open>try\<close>.
\<close>

fun renderRuleList ::
  "rr_module \<Rightarrow> element \<Rightarrow> (string \<rightharpoonup> factory) \<Rightarrow> string list \<Rightarrow> element \<times> thrown option" where
  "renderRuleList RR sectionRoot rules [] = (sectionRoot, None)"
| "renderRuleList RR sectionRoot rules (name # names) =
     (case rules name of
        None \<Rightarrow>
          (case build RR (Diagram [Comment (''No factory defined for '' @ name)]) of
             Inl e \<Rightarrow> (sectionRoot, Some e)
           | Inr d \<Rightarrow> renderRuleList RR (mountRule sectionRoot name d) rules names)
      | Some factory \<Rightarrow>
          (case factory () of
             Inl e \<Rightarrow> (sectionRoot, Some e)
           | Inr d \<Rightarrow> renderRuleList RR (mountRule sectionRoot name d) rules names))"

section \<open>The rule registry\<close>

text \<open>
  The calls \<^verbatim>\<open>rules.set(name, factory)\<close> of the module in source order. Each factory
  is given by the description it returns, under the name of its rule. Four factories
  build parts of their description in local constants first; each such constant has a
  definition of its own, named after the rule and the constant. The table lists the
  calls in their order.
\<close>

definition rule_token :: rr where
  "rule_token = Diagram [Choice 0 [NT ''keyword'', NT ''identifier'', NT ''constant'', NT
     ''string-literal'', NT ''punctuator'']]"

definition rule_preprocessing_token :: rr where
  "rule_preprocessing_token = Diagram [Choice 0 [NT ''header-name'', NT ''identifier'', NT
     ''pp-number'', NT ''character-constant'', NT ''string-literal'', NT ''punctuator'', NT
     ''universal-character-name'', NT ''non-white-space-character'']]"

definition rule_identifier :: rr where
  "rule_identifier = Diagram [Sequence [NT ''identifier-start'', ZeroOrMore [NT
     ''identifier-continue'']]]"

definition rule_universal_character_name :: rr where
  "rule_universal_character_name = Diagram [Choice 0 [Sequence [T ([CHR 0x5C] @ ''u''), NT
     ''hex-quad''], Sequence [T ([CHR 0x5C] @ ''U''), NT ''hex-quad'', NT ''hex-quad'']]]"

definition rule_constant :: rr where
  "rule_constant = Diagram [Choice 0 [NT ''integer-constant'', NT ''floating-constant'', NT
     ''enumeration-constant'', NT ''character-constant'', NT ''predefined-constant'']]"

definition rule_primary_expression :: rr where
  "rule_primary_expression = Diagram [Choice 0 [NT ''identifier'', NT ''constant'', NT
     ''string-literal'', Sequence [T ''('', NT ''expression'', T '')''], NT
     ''generic-selection'']]"

definition rule_generic_selection :: rr where
  "rule_generic_selection = Diagram [Sequence [T ''_Generic'', T ''('', NT
     ''assignment-expression'', T '','', NT ''generic-assoc-list'', T '')'']]"

definition rule_generic_assoc_list :: rr where
  "rule_generic_assoc_list = Diagram [Sequence [NT ''generic-association'', ZeroOrMore [Sequence
     [T '','', NT ''generic-association'']]]]"

definition rule_generic_association :: rr where
  "rule_generic_association = Diagram [Choice 0 [Sequence [NT ''type-name'', T '':'', NT
     ''assignment-expression''], Sequence [T ''default'', T '':'', NT
     ''assignment-expression'']]]"

definition rule_argument_expression_list :: rr where
  "rule_argument_expression_list = Diagram [Sequence [NT ''assignment-expression'', ZeroOrMore
     [Sequence [T '','', NT ''assignment-expression'']]]]"

definition rule_compound_literal :: rr where
  "rule_compound_literal = Diagram [Sequence [T ''('', Optional [NT
     ''storage-class-specifiers''], NT ''type-name'', T '')'', NT ''braced-initializer'']]"

definition postfix_expression_postfixSuffix :: rr where
  "postfix_expression_postfixSuffix = Choice 0 [Sequence [T ''['', NT ''expression'', T '']''],
     Sequence [T ''('', Optional [NT ''argument-expression-list''], T '')''], Sequence [T ''.'',
     NT ''identifier''], Sequence [T ''->'', NT ''identifier''], T ''++'', T ''--'']"

definition rule_postfix_expression :: rr where
  "rule_postfix_expression = Diagram [Sequence [Choice 0 [NT ''primary-expression'', NT
     ''compound-literal''], ZeroOrMore [postfix_expression_postfixSuffix]]]"

definition rule_unary_operator :: rr where
  "rule_unary_operator = Diagram [Choice 0 [T ''&'', T ''*'', T ''+'', T ''-'', T ''~'', T
     ''!'']]"

definition rule_cast_expression :: rr where
  "rule_cast_expression = Diagram [Sequence [ZeroOrMore [Sequence [T ''('', NT ''type-name'', T
     '')'']], NT ''unary-expression'']]"

definition unary_expression_prefixOps :: rr where
  "unary_expression_prefixOps = ZeroOrMore [Choice 0 [T ''++'', T ''--'', T ''sizeof'']]"

definition unary_expression_core :: rr where
  "unary_expression_core = Choice 0 [NT ''postfix-expression'', Sequence [NT ''unary-operator'',
     NT ''cast-expression'']]"

definition rule_unary_expression :: rr where
  "rule_unary_expression = Diagram [Choice 0 [Sequence [unary_expression_prefixOps,
     unary_expression_core], Sequence [T ''sizeof'', T ''('', NT ''type-name'', T '')''],
     Sequence [T ''alignof'', T ''('', NT ''type-name'', T '')'']]]"

definition rule_multiplicative_expression :: rr where
  "rule_multiplicative_expression = Diagram [chain ''cast-expression'' [''*'', ''/'', ''%'']]"

definition rule_additive_expression :: rr where
  "rule_additive_expression = Diagram [chain ''multiplicative-expression'' [''+'', ''-'']]"

definition rule_shift_expression :: rr where
  "rule_shift_expression = Diagram [chain ''additive-expression'' [''<<'', ''>>'']]"

definition rule_relational_expression :: rr where
  "rule_relational_expression = Diagram [chain ''shift-expression'' [''<'', ''>'', ''<='',
     ''>='']]"

definition rule_equality_expression :: rr where
  "rule_equality_expression = Diagram [chain ''relational-expression'' [''=='', ''!='']]"

definition rule_AND_expression :: rr where
  "rule_AND_expression = Diagram [chain ''equality-expression'' [''&'']]"

definition rule_exclusive_OR_expression :: rr where
  "rule_exclusive_OR_expression = Diagram [chain ''AND-expression'' [''^'']]"

definition rule_inclusive_OR_expression :: rr where
  "rule_inclusive_OR_expression = Diagram [chain ''exclusive-OR-expression'' [''|'']]"

definition rule_logical_AND_expression :: rr where
  "rule_logical_AND_expression = Diagram [chain ''inclusive-OR-expression'' [''&&'']]"

definition rule_logical_OR_expression :: rr where
  "rule_logical_OR_expression = Diagram [chain ''logical-AND-expression'' [''||'']]"

definition rule_conditional_expression :: rr where
  "rule_conditional_expression = Diagram [Sequence [NT ''logical-OR-expression'', Optional
     [Sequence [T ''?'', NT ''expression'', T '':'', NT ''conditional-expression'']]]]"

definition rule_assignment_operator :: rr where
  "rule_assignment_operator = Diagram [Choice 0 [T ''='', T ''*='', T ''/='', T ''%='', T
     ''+='', T ''-='', T ''<<='', T ''>>='', T ''&='', T ''^='', T ''|='']]"

definition rule_assignment_expression :: rr where
  "rule_assignment_expression = Diagram [Choice 0 [NT ''conditional-expression'', Sequence [NT
     ''unary-expression'', NT ''assignment-operator'', NT ''assignment-expression'']]]"

definition rule_expression :: rr where
  "rule_expression = Diagram [Sequence [NT ''assignment-expression'', ZeroOrMore [Sequence [T
     '','', NT ''assignment-expression'']]]]"

definition rule_constant_expression :: rr where
  "rule_constant_expression = Diagram [NT ''conditional-expression'']"

definition rule_declaration :: rr where
  "rule_declaration = Diagram [Choice 0 [Sequence [NT ''declaration-specifiers'', Optional [NT
     ''init-declarator-list''], T '';''], Sequence [NT ''attribute-specifier-sequence'', NT
     ''declaration-specifiers'', NT ''init-declarator-list'', T '';''], NT
     ''static_assert-declaration'', NT ''attribute-declaration'']]"

definition rule_declaration_specifiers :: rr where
  "rule_declaration_specifiers = Diagram [OneOrMore [Sequence [NT ''declaration-specifier'',
     Optional [NT ''attribute-specifier-sequence'']], Comment ''one or more'']]"

definition rule_declaration_specifier :: rr where
  "rule_declaration_specifier = Diagram [Choice 0 [NT ''storage-class-specifier'', NT
     ''type-specifier-qualifier'', NT ''function-specifier'']]"

definition rule_init_declarator_list :: rr where
  "rule_init_declarator_list = Diagram [Sequence [NT ''init-declarator'', ZeroOrMore [Sequence
     [T '','', NT ''init-declarator'']]]]"

definition rule_init_declarator :: rr where
  "rule_init_declarator = Diagram [Choice 0 [NT ''declarator'', Sequence [NT ''declarator'', T
     ''='', NT ''initializer'']]]"

definition rule_storage_class_specifiers :: rr where
  "rule_storage_class_specifiers = Diagram [OneOrMore [NT ''storage-class-specifier'']]"

definition rule_storage_class_specifier :: rr where
  "rule_storage_class_specifier = Diagram [Choice 0 [T ''auto'', T ''constexpr'', T ''extern'',
     T ''register'', T ''static'', T ''thread_local'', T ''typedef'']]"

definition rule_type_specifier_qualifier :: rr where
  "rule_type_specifier_qualifier = Diagram [Choice 0 [NT ''type-specifier'', NT
     ''type-qualifier'', NT ''alignment-specifier'']]"

definition rule_type_specifier :: rr where
  "rule_type_specifier = Diagram [Choice 0 [T ''void'', T ''char'', T ''short'', T ''int'', T
     ''long'', T ''float'', T ''double'', T ''signed'', T ''unsigned'', Sequence [T ''_BitInt'',
     T ''('', NT ''constant-expression'', T '')''], T ''bool'', T ''_Complex'', T
     ''_Decimal32'', T ''_Decimal64'', T ''_Decimal128'', NT ''atomic-type-specifier'', NT
     ''struct-or-union-specifier'', NT ''enum-specifier'', NT ''typedef-name'', NT
     ''typeof-specifier'']]"

definition rule_struct_or_union_specifier :: rr where
  "rule_struct_or_union_specifier = Diagram [Choice 0 [Sequence [NT ''struct-or-union'',
     Optional [NT ''attribute-specifier-sequence''], Optional [NT ''identifier''], T ''{'', NT
     ''member-declaration-list'', T ''}''], Sequence [NT ''struct-or-union'', Optional [NT
     ''attribute-specifier-sequence''], NT ''identifier'']]]"

definition rule_struct_or_union :: rr where
  "rule_struct_or_union = Diagram [Choice 0 [T ''struct'', T ''union'']]"

definition rule_member_declaration_list :: rr where
  "rule_member_declaration_list = Diagram [OneOrMore [NT ''member-declaration'']]"

definition rule_member_declaration :: rr where
  "rule_member_declaration = Diagram [Choice 0 [Sequence [Optional [NT
     ''attribute-specifier-sequence''], NT ''specifier-qualifier-list'', Optional [NT
     ''member-declarator-list''], T '';''], NT ''static_assert-declaration'']]"

definition rule_specifier_qualifier_list :: rr where
  "rule_specifier_qualifier_list = Diagram [OneOrMore [Sequence [NT
     ''type-specifier-qualifier'', Optional [NT ''attribute-specifier-sequence'']]]]"

definition rule_member_declarator_list :: rr where
  "rule_member_declarator_list = Diagram [Sequence [NT ''member-declarator'', ZeroOrMore
     [Sequence [T '','', NT ''member-declarator'']]]]"

definition rule_member_declarator :: rr where
  "rule_member_declarator = Diagram [Choice 0 [NT ''declarator'', Sequence [Optional [NT
     ''declarator''], T '':'', NT ''constant-expression'']]]"

definition rule_enum_specifier :: rr where
  "rule_enum_specifier = Diagram [Choice 0 [Sequence [T ''enum'', Optional [NT
     ''attribute-specifier-sequence''], Optional [NT ''identifier''], Optional [NT
     ''enum-type-specifier''], T ''{'', NT ''enumerator-list'', T ''}''], Sequence [T ''enum'',
     Optional [NT ''attribute-specifier-sequence''], Optional [NT ''identifier''], Optional [NT
     ''enum-type-specifier''], T ''{'', NT ''enumerator-list'', T '','', T ''}''], Sequence [T
     ''enum'', NT ''identifier'', Optional [NT ''enum-type-specifier'']]]]"

definition rule_enumerator_list :: rr where
  "rule_enumerator_list = Diagram [Sequence [NT ''enumerator'', ZeroOrMore [Sequence [T '','',
     NT ''enumerator'']]]]"

definition rule_enumerator :: rr where
  "rule_enumerator = Diagram [Choice 0 [Sequence [NT ''enumeration-constant'', Optional [NT
     ''attribute-specifier-sequence'']], Sequence [NT ''enumeration-constant'', Optional [NT
     ''attribute-specifier-sequence''], T ''='', NT ''constant-expression'']]]"

definition rule_enum_type_specifier :: rr where
  "rule_enum_type_specifier = Diagram [Sequence [T '':'', NT ''specifier-qualifier-list'']]"

definition rule_atomic_type_specifier :: rr where
  "rule_atomic_type_specifier = Diagram [Sequence [T ''_Atomic'', T ''('', NT ''type-name'', T
     '')'']]"

definition rule_typeof_specifier :: rr where
  "rule_typeof_specifier = Diagram [Choice 0 [Sequence [T ''typeof'', T ''('', NT
     ''typeof-specifier-argument'', T '')''], Sequence [T ''typeof_unqual'', T ''('', NT
     ''typeof-specifier-argument'', T '')'']]]"

definition rule_typeof_specifier_argument :: rr where
  "rule_typeof_specifier_argument = Diagram [Choice 0 [NT ''expression'', NT ''type-name'']]"

definition rule_type_qualifier :: rr where
  "rule_type_qualifier = Diagram [Choice 0 [T ''const'', T ''restrict'', T ''volatile'', T
     ''_Atomic'']]"

definition rule_type_qualifier_list :: rr where
  "rule_type_qualifier_list = Diagram [OneOrMore [NT ''type-qualifier'']]"

definition rule_function_specifier :: rr where
  "rule_function_specifier = Diagram [Choice 0 [T ''inline'', T ''_Noreturn'']]"

definition rule_alignment_specifier :: rr where
  "rule_alignment_specifier = Diagram [Choice 0 [Sequence [T ''alignas'', T ''('', NT
     ''type-name'', T '')''], Sequence [T ''alignas'', T ''('', NT ''constant-expression'', T
     '')'']]]"

definition rule_declarator :: rr where
  "rule_declarator = Diagram [Sequence [Optional [NT ''pointer''], NT ''direct-declarator'']]"

definition rule_pointer :: rr where
  "rule_pointer = Diagram [OneOrMore [Sequence [T ''*'', Optional [NT
     ''attribute-specifier-sequence''], Optional [NT ''type-qualifier-list'']]]]"

definition direct_declarator_base :: rr where
  "direct_declarator_base = Choice 0 [Sequence [NT ''identifier'', Optional [NT
     ''attribute-specifier-sequence'']], Sequence [T ''('', NT ''declarator'', T '')'']]"

definition direct_declarator_arrayBracket :: rr where
  "direct_declarator_arrayBracket = Choice 0 [Sequence [Optional [NT ''type-qualifier-list''],
     Optional [NT ''assignment-expression'']], Sequence [T ''static'', Optional [NT
     ''type-qualifier-list''], NT ''assignment-expression''], Sequence [NT
     ''type-qualifier-list'', T ''static'', NT ''assignment-expression''], Sequence [Optional
     [NT ''type-qualifier-list''], T ''*'']]"

definition direct_declarator_arraySuffix :: rr where
  "direct_declarator_arraySuffix = Sequence [T ''['', direct_declarator_arrayBracket, T '']'',
     Optional [NT ''attribute-specifier-sequence'']]"

definition direct_declarator_funcSuffix :: rr where
  "direct_declarator_funcSuffix = Sequence [T ''('', Optional [NT ''parameter-type-list''], T
     '')'', Optional [NT ''attribute-specifier-sequence'']]"

definition rule_direct_declarator :: rr where
  "rule_direct_declarator = Diagram [Sequence [direct_declarator_base, ZeroOrMore [Choice 0
     [direct_declarator_arraySuffix, direct_declarator_funcSuffix]]]]"

definition rule_parameter_type_list :: rr where
  "rule_parameter_type_list = Diagram [Choice 0 [NT ''parameter-list'', Sequence [NT
     ''parameter-list'', T '','', T ''...''], T ''...'']]"

definition rule_parameter_list :: rr where
  "rule_parameter_list = Diagram [Sequence [NT ''parameter-declaration'', ZeroOrMore [Sequence
     [T '','', NT ''parameter-declaration'']]]]"

definition rule_parameter_declaration :: rr where
  "rule_parameter_declaration = Diagram [Choice 0 [Sequence [Optional [NT
     ''attribute-specifier-sequence''], NT ''declaration-specifiers'', NT ''declarator''],
     Sequence [Optional [NT ''attribute-specifier-sequence''], NT ''declaration-specifiers'',
     Optional [NT ''abstract-declarator'']]]]"

definition rule_type_name :: rr where
  "rule_type_name = Diagram [Sequence [NT ''specifier-qualifier-list'', Optional [NT
     ''abstract-declarator'']]]"

definition rule_abstract_declarator :: rr where
  "rule_abstract_declarator = Diagram [Choice 0 [NT ''pointer'', Sequence [Optional [NT
     ''pointer''], NT ''direct-abstract-declarator'']]]"

definition direct_abstract_declarator_base :: rr where
  "direct_abstract_declarator_base = Choice 0 [Sequence [T ''('', NT ''abstract-declarator'', T
     '')''], Comment ''or empty base for suffix-only forms'']"

definition direct_abstract_declarator_arrayBracket :: rr where
  "direct_abstract_declarator_arrayBracket = Choice 0 [Sequence [Optional [NT
     ''type-qualifier-list''], Optional [NT ''assignment-expression'']], Sequence [T ''static'',
     Optional [NT ''type-qualifier-list''], NT ''assignment-expression''], Sequence [NT
     ''type-qualifier-list'', T ''static'', NT ''assignment-expression''], Sequence [T ''*'']]"

definition direct_abstract_declarator_arraySuffix :: rr where
  "direct_abstract_declarator_arraySuffix = Sequence [T ''['',
     direct_abstract_declarator_arrayBracket, T '']'', Optional [NT
     ''attribute-specifier-sequence'']]"

definition direct_abstract_declarator_funcSuffix :: rr where
  "direct_abstract_declarator_funcSuffix = Sequence [T ''('', Optional [NT
     ''parameter-type-list''], T '')'', Optional [NT ''attribute-specifier-sequence'']]"

definition rule_direct_abstract_declarator :: rr where
  "rule_direct_abstract_declarator = Diagram [Sequence [direct_abstract_declarator_base,
     ZeroOrMore [Choice 0 [direct_abstract_declarator_arraySuffix,
     direct_abstract_declarator_funcSuffix]]]]"

definition rule_braced_initializer :: rr where
  "rule_braced_initializer = Diagram [Choice 0 [Sequence [T ''{'', T ''}''], Sequence [T ''{'',
     NT ''initializer-list'', T ''}''], Sequence [T ''{'', NT ''initializer-list'', T '','', T
     ''}'']]]"

definition rule_initializer :: rr where
  "rule_initializer = Diagram [Choice 0 [NT ''assignment-expression'', NT
     ''braced-initializer'']]"

definition rule_initializer_list :: rr where
  "rule_initializer_list = Diagram [Sequence [Optional [NT ''designation''], NT ''initializer'',
     ZeroOrMore [Sequence [T '','', Optional [NT ''designation''], NT ''initializer'']]]]"

definition rule_designation :: rr where
  "rule_designation = Diagram [Sequence [NT ''designator-list'', T ''='']]"

definition rule_designator_list :: rr where
  "rule_designator_list = Diagram [OneOrMore [NT ''designator'']]"

definition rule_designator :: rr where
  "rule_designator = Diagram [Choice 0 [Sequence [T ''['', NT ''constant-expression'', T '']''],
     Sequence [T ''.'', NT ''identifier'']]]"

definition rule_statement :: rr where
  "rule_statement = Diagram [Choice 0 [NT ''labeled-statement'', NT ''unlabeled-statement'']]"

definition rule_label :: rr where
  "rule_label = Diagram [Choice 0 [Sequence [Optional [NT ''attribute-specifier-sequence''], NT
     ''identifier'', T '':''], Sequence [Optional [NT ''attribute-specifier-sequence''], T
     ''case'', NT ''constant-expression'', T '':''], Sequence [Optional [NT
     ''attribute-specifier-sequence''], T ''default'', T '':'']]]"

definition rule_labeled_statement :: rr where
  "rule_labeled_statement = Diagram [Sequence [NT ''label'', NT ''statement'']]"

definition rule_unlabeled_statement :: rr where
  "rule_unlabeled_statement = Diagram [Choice 0 [NT ''expression-statement'', Sequence [Optional
     [NT ''attribute-specifier-sequence''], NT ''primary-block''], Sequence [Optional [NT
     ''attribute-specifier-sequence''], NT ''jump-statement'']]]"

definition rule_primary_block :: rr where
  "rule_primary_block = Diagram [Choice 0 [NT ''compound-statement'', NT
     ''selection-statement'', NT ''iteration-statement'']]"

definition rule_compound_statement :: rr where
  "rule_compound_statement = Diagram [Sequence [T ''{'', Optional [NT ''block-item-list''], T
     ''}'']]"

definition rule_block_item_list :: rr where
  "rule_block_item_list = Diagram [OneOrMore [NT ''block-item'']]"

definition rule_block_item :: rr where
  "rule_block_item = Diagram [Choice 0 [NT ''declaration'', NT ''unlabeled-statement'', NT
     ''label'']]"

definition rule_expression_statement :: rr where
  "rule_expression_statement = Diagram [Choice 0 [Sequence [Optional [NT ''expression''], T
     '';''], Sequence [NT ''attribute-specifier-sequence'', NT ''expression'', T '';'']]]"

definition rule_selection_statement :: rr where
  "rule_selection_statement = Diagram [Choice 0 [Sequence [T ''if'', T ''('', NT ''expression'',
     T '')'', NT ''secondary-block''], Sequence [T ''if'', T ''('', NT ''expression'', T '')'',
     NT ''secondary-block'', T ''else'', NT ''secondary-block''], Sequence [T ''switch'', T
     ''('', NT ''expression'', T '')'', NT ''secondary-block'']]]"

definition rule_iteration_statement :: rr where
  "rule_iteration_statement = Diagram [Choice 0 [Sequence [T ''while'', T ''('', NT
     ''expression'', T '')'', NT ''secondary-block''], Sequence [T ''do'', NT
     ''secondary-block'', T ''while'', T ''('', NT ''expression'', T '')'', T '';''], Sequence
     [T ''for'', T ''('', Optional [NT ''expression''], T '';'', Optional [NT ''expression''], T
     '';'', Optional [NT ''expression''], T '')'', NT ''secondary-block''], Sequence [T ''for'',
     T ''('', NT ''declaration'', Optional [NT ''expression''], T '';'', Optional [NT
     ''expression''], T '')'', NT ''secondary-block'']]]"

definition rule_jump_statement :: rr where
  "rule_jump_statement = Diagram [Choice 0 [Sequence [T ''goto'', NT ''identifier'', T '';''],
     Sequence [T ''continue'', T '';''], Sequence [T ''break'', T '';''], Sequence [T
     ''return'', Optional [NT ''expression''], T '';'']]]"

definition rule_translation_unit :: rr where
  "rule_translation_unit = Diagram [OneOrMore [NT ''external-declaration'']]"

definition rule_external_declaration :: rr where
  "rule_external_declaration = Diagram [Choice 0 [NT ''function-definition'', NT
     ''declaration'']]"

definition rule_function_definition :: rr where
  "rule_function_definition = Diagram [Sequence [Optional [NT ''attribute-specifier-sequence''],
     NT ''declaration-specifiers'', NT ''declarator'', NT ''function-body'']]"

definition rule_function_body :: rr where
  "rule_function_body = Diagram [NT ''compound-statement'']"

definition rule_preprocessing_file :: rr where
  "rule_preprocessing_file = Diagram [Optional [NT ''group'']]"

definition rule_group :: rr where
  "rule_group = Diagram [OneOrMore [NT ''group-part'']]"

definition rule_group_part :: rr where
  "rule_group_part = Diagram [Choice 0 [NT ''if-section'', NT ''control-line'', NT
     ''text-line'', Sequence [T ''#'', NT ''non-directive'']]]"

definition rule_if_section :: rr where
  "rule_if_section = Diagram [Sequence [NT ''if-group'', Optional [NT ''elif-groups''], Optional
     [NT ''else-group''], NT ''endif-line'']]"

definition rule_if_group :: rr where
  "rule_if_group = Diagram [Choice 0 [Sequence [T ''#'', T ''if'', NT ''constant-expression'',
     NT ''new-line'', Optional [NT ''group'']], Sequence [T ''#'', T ''ifdef'', NT
     ''identifier'', NT ''new-line'', Optional [NT ''group'']], Sequence [T ''#'', T ''ifndef'',
     NT ''identifier'', NT ''new-line'', Optional [NT ''group'']]]]"

definition rule_elif_groups :: rr where
  "rule_elif_groups = Diagram [OneOrMore [NT ''elif-group'']]"

definition rule_elif_group :: rr where
  "rule_elif_group = Diagram [Choice 0 [Sequence [T ''#'', T ''elif'', NT
     ''constant-expression'', NT ''new-line'', Optional [NT ''group'']], Sequence [T ''#'', T
     ''elifdef'', NT ''identifier'', NT ''new-line'', Optional [NT ''group'']], Sequence [T
     ''#'', T ''elifndef'', NT ''identifier'', NT ''new-line'', Optional [NT ''group'']]]]"

definition rule_else_group :: rr where
  "rule_else_group = Diagram [Sequence [T ''#'', T ''else'', NT ''new-line'', Optional [NT
     ''group'']]]"

definition rule_endif_line :: rr where
  "rule_endif_line = Diagram [Sequence [T ''#'', T ''endif'', NT ''new-line'']]"

definition rule_control_line :: rr where
  "rule_control_line = Diagram [Choice 0 [Sequence [T ''#'', T ''include'', NT ''pp-tokens'', NT
     ''new-line''], Sequence [T ''#'', T ''embed'', NT ''pp-tokens'', NT ''new-line''], Sequence
     [T ''#'', T ''define'', NT ''identifier'', NT ''replacement-list'', NT ''new-line''],
     Sequence [T ''#'', T ''undef'', NT ''identifier'', NT ''new-line''], Sequence [T ''#'', T
     ''line'', NT ''pp-tokens'', NT ''new-line''], Sequence [T ''#'', T ''error'', Optional [NT
     ''pp-tokens''], NT ''new-line''], Sequence [T ''#'', T ''warning'', Optional [NT
     ''pp-tokens''], NT ''new-line''], Sequence [T ''#'', T ''pragma'', Optional [NT
     ''pp-tokens''], NT ''new-line''], Sequence [T ''#'', NT ''new-line'']]]"

definition rule_text_line :: rr where
  "rule_text_line = Diagram [Sequence [Optional [NT ''pp-tokens''], NT ''new-line'']]"

definition rule_non_directive :: rr where
  "rule_non_directive = Diagram [Sequence [NT ''pp-tokens'', NT ''new-line'']]"

definition rule_pp_tokens :: rr where
  "rule_pp_tokens = Diagram [OneOrMore [NT ''preprocessing-token'']]"

definition rule_replacement_list :: rr where
  "rule_replacement_list = Diagram [Optional [NT ''pp-tokens'']]"

definition rules_table :: "(string \<times> rr) list" where
  "rules_table = [
    (''token'', rule_token),
    (''preprocessing-token'', rule_preprocessing_token),
    (''identifier'', rule_identifier),
    (''universal-character-name'', rule_universal_character_name),
    (''constant'', rule_constant),
    (''primary-expression'', rule_primary_expression),
    (''generic-selection'', rule_generic_selection),
    (''generic-assoc-list'', rule_generic_assoc_list),
    (''generic-association'', rule_generic_association),
    (''argument-expression-list'', rule_argument_expression_list),
    (''compound-literal'', rule_compound_literal),
    (''postfix-expression'', rule_postfix_expression),
    (''unary-operator'', rule_unary_operator),
    (''cast-expression'', rule_cast_expression),
    (''unary-expression'', rule_unary_expression),
    (''multiplicative-expression'', rule_multiplicative_expression),
    (''additive-expression'', rule_additive_expression),
    (''shift-expression'', rule_shift_expression),
    (''relational-expression'', rule_relational_expression),
    (''equality-expression'', rule_equality_expression),
    (''AND-expression'', rule_AND_expression),
    (''exclusive-OR-expression'', rule_exclusive_OR_expression),
    (''inclusive-OR-expression'', rule_inclusive_OR_expression),
    (''logical-AND-expression'', rule_logical_AND_expression),
    (''logical-OR-expression'', rule_logical_OR_expression),
    (''conditional-expression'', rule_conditional_expression),
    (''assignment-operator'', rule_assignment_operator),
    (''assignment-expression'', rule_assignment_expression),
    (''expression'', rule_expression),
    (''constant-expression'', rule_constant_expression),
    (''declaration'', rule_declaration),
    (''declaration-specifiers'', rule_declaration_specifiers),
    (''declaration-specifier'', rule_declaration_specifier),
    (''init-declarator-list'', rule_init_declarator_list),
    (''init-declarator'', rule_init_declarator),
    (''storage-class-specifiers'', rule_storage_class_specifiers),
    (''storage-class-specifier'', rule_storage_class_specifier),
    (''type-specifier-qualifier'', rule_type_specifier_qualifier),
    (''type-specifier'', rule_type_specifier),
    (''struct-or-union-specifier'', rule_struct_or_union_specifier),
    (''struct-or-union'', rule_struct_or_union),
    (''member-declaration-list'', rule_member_declaration_list),
    (''member-declaration'', rule_member_declaration),
    (''specifier-qualifier-list'', rule_specifier_qualifier_list),
    (''member-declarator-list'', rule_member_declarator_list),
    (''member-declarator'', rule_member_declarator),
    (''enum-specifier'', rule_enum_specifier),
    (''enumerator-list'', rule_enumerator_list),
    (''enumerator'', rule_enumerator),
    (''enum-type-specifier'', rule_enum_type_specifier),
    (''atomic-type-specifier'', rule_atomic_type_specifier),
    (''typeof-specifier'', rule_typeof_specifier),
    (''typeof-specifier-argument'', rule_typeof_specifier_argument),
    (''type-qualifier'', rule_type_qualifier),
    (''type-qualifier-list'', rule_type_qualifier_list),
    (''function-specifier'', rule_function_specifier),
    (''alignment-specifier'', rule_alignment_specifier),
    (''declarator'', rule_declarator),
    (''pointer'', rule_pointer),
    (''direct-declarator'', rule_direct_declarator),
    (''parameter-type-list'', rule_parameter_type_list),
    (''parameter-list'', rule_parameter_list),
    (''parameter-declaration'', rule_parameter_declaration),
    (''type-name'', rule_type_name),
    (''abstract-declarator'', rule_abstract_declarator),
    (''direct-abstract-declarator'', rule_direct_abstract_declarator),
    (''braced-initializer'', rule_braced_initializer),
    (''initializer'', rule_initializer),
    (''initializer-list'', rule_initializer_list),
    (''designation'', rule_designation),
    (''designator-list'', rule_designator_list),
    (''designator'', rule_designator),
    (''statement'', rule_statement),
    (''label'', rule_label),
    (''labeled-statement'', rule_labeled_statement),
    (''unlabeled-statement'', rule_unlabeled_statement),
    (''primary-block'', rule_primary_block),
    (''compound-statement'', rule_compound_statement),
    (''block-item-list'', rule_block_item_list),
    (''block-item'', rule_block_item),
    (''expression-statement'', rule_expression_statement),
    (''selection-statement'', rule_selection_statement),
    (''iteration-statement'', rule_iteration_statement),
    (''jump-statement'', rule_jump_statement),
    (''translation-unit'', rule_translation_unit),
    (''external-declaration'', rule_external_declaration),
    (''function-definition'', rule_function_definition),
    (''function-body'', rule_function_body),
    (''preprocessing-file'', rule_preprocessing_file),
    (''group'', rule_group),
    (''group-part'', rule_group_part),
    (''if-section'', rule_if_section),
    (''if-group'', rule_if_group),
    (''elif-groups'', rule_elif_groups),
    (''elif-group'', rule_elif_group),
    (''else-group'', rule_else_group),
    (''endif-line'', rule_endif_line),
    (''control-line'', rule_control_line),
    (''text-line'', rule_text_line),
    (''non-directive'', rule_non_directive),
    (''pp-tokens'', rule_pp_tokens),
    (''replacement-list'', rule_replacement_list)
  ]"

text \<open>
  The local constants of the four factories that have any, in the order in which the
  factory builds them before it evaluates the expression it returns.
\<close>

definition rule_constants :: "(string \<times> rr list) list" where
  "rule_constants = [
    (''postfix-expression'', [postfix_expression_postfixSuffix]),
    (''unary-expression'', [unary_expression_prefixOps, unary_expression_core]),
    (''direct-declarator'', [direct_declarator_base, direct_declarator_arrayBracket,
      direct_declarator_arraySuffix, direct_declarator_funcSuffix]),
    (''direct-abstract-declarator'', [direct_abstract_declarator_base,
      direct_abstract_declarator_arrayBracket, direct_abstract_declarator_arraySuffix,
      direct_abstract_declarator_funcSuffix])
  ]"

definition local_constants :: "string \<Rightarrow> rr list" where
  "local_constants name = (case map_of rule_constants name of None \<Rightarrow> [] | Some cs \<Rightarrow> cs)"

text \<open>
  Invoking a factory: its local constants are built first, in order, and then the
  returned expression. The library is a function of its arguments here, so a constant
  that occurs in the returned expression is built there to the same object and cannot
  throw once it has been built: the factory returns the object the code returns, or
  throws the exception the code meets first.
\<close>

definition run_factory :: "rr_module \<Rightarrow> rr list \<Rightarrow> rr \<Rightarrow> thrown + diagram" where
  "run_factory RR cs d = (case build_list RR cs of Inl e \<Rightarrow> Inl e | Inr os \<Rightarrow> build RR d)"

text \<open>
  The registry is the \<^verbatim>\<open>Map\<close> the calls of \<^verbatim>\<open>set\<close> leave: a later call for the same
  name replaces the earlier entry.
\<close>

definition map_set :: "('k \<rightharpoonup> 'v) \<Rightarrow> 'k \<times> 'v \<Rightarrow> ('k \<rightharpoonup> 'v)" where
  "map_set m kv = m(fst kv \<mapsto> snd kv)"

definition rule_descriptions :: "string \<rightharpoonup> rr" where
  "rule_descriptions = foldl map_set Map.empty rules_table"

definition rules :: "rr_module \<Rightarrow> string \<rightharpoonup> factory" where
  "rules RR name =
     map_option (\<lambda>d. (\<lambda>_. run_factory RR (local_constants name) d)) (rule_descriptions name)"

text \<open>
  The section index: the six calls of \<^verbatim>\<open>renderRuleList\<close> in \<^verbatim>\<open>renderAllSections\<close>, each
  with its section marker and its list of rule names.
\<close>

definition section_rules :: "(string \<times> string list) list" where
  "section_rules = [
    (''lexical'', [''token'', ''preprocessing-token'', ''identifier'',
      ''universal-character-name'', ''constant'']),
    (''expressions'', [''primary-expression'', ''generic-selection'', ''generic-assoc-list'',
      ''generic-association'', ''postfix-expression'', ''unary-operator'', ''unary-expression'',
      ''cast-expression'', ''multiplicative-expression'', ''additive-expression'',
      ''shift-expression'', ''relational-expression'', ''equality-expression'',
      ''AND-expression'', ''exclusive-OR-expression'', ''inclusive-OR-expression'',
      ''logical-AND-expression'', ''logical-OR-expression'', ''conditional-expression'',
      ''assignment-operator'', ''assignment-expression'', ''expression'',
      ''constant-expression'']),
    (''declarations'', [''declaration'', ''declaration-specifiers'', ''declaration-specifier'',
      ''init-declarator-list'', ''init-declarator'', ''storage-class-specifiers'',
      ''storage-class-specifier'', ''type-specifier-qualifier'', ''type-specifier'',
      ''struct-or-union-specifier'', ''member-declaration-list'', ''member-declaration'',
      ''specifier-qualifier-list'', ''enum-specifier'', ''enumerator-list'', ''enumerator'',
      ''atomic-type-specifier'', ''typeof-specifier'', ''type-qualifier'',
      ''type-qualifier-list'', ''function-specifier'', ''alignment-specifier'', ''declarator'',
      ''pointer'', ''direct-declarator'', ''parameter-type-list'', ''parameter-list'',
      ''parameter-declaration'', ''type-name'', ''abstract-declarator'',
      ''direct-abstract-declarator'', ''braced-initializer'', ''initializer'',
      ''initializer-list'', ''designation'', ''designator-list'', ''designator'']),
    (''statements'', [''statement'', ''label'', ''labeled-statement'', ''unlabeled-statement'',
      ''compound-statement'', ''block-item-list'', ''block-item'', ''expression-statement'',
      ''selection-statement'', ''iteration-statement'', ''jump-statement'']),
    (''external'', [''translation-unit'', ''external-declaration'', ''function-definition'',
      ''function-body'']),
    (''preprocessor'', [''preprocessing-file'', ''group'', ''group-part'', ''if-section'',
      ''if-group'', ''elif-groups'', ''elif-group'', ''else-group'', ''endif-line'',
      ''control-line'', ''text-line'', ''non-directive'', ''pp-tokens'', ''replacement-list''])
  ]"

section \<open>Reading a description\<close>

text \<open>The non-terminal references, the terminals and the comments of a description, left to right.\<close>

fun nt_refs :: "rr \<Rightarrow> string list" where
  "nt_refs (Diagram a) = concat (map nt_refs a)"
| "nt_refs (Sequence a) = concat (map nt_refs a)"
| "nt_refs (Choice n a) = concat (map nt_refs a)"
| "nt_refs (Optional a) = concat (map nt_refs a)"
| "nt_refs (OneOrMore a) = concat (map nt_refs a)"
| "nt_refs (ZeroOrMore a) = concat (map nt_refs a)"
| "nt_refs (Terminal s) = []"
| "nt_refs (NonTerminal s) = [s]"
| "nt_refs (Stack a) = concat (map nt_refs a)"
| "nt_refs (Comment s) = []"

fun terminals :: "rr \<Rightarrow> string list" where
  "terminals (Diagram a) = concat (map terminals a)"
| "terminals (Sequence a) = concat (map terminals a)"
| "terminals (Choice n a) = concat (map terminals a)"
| "terminals (Optional a) = concat (map terminals a)"
| "terminals (OneOrMore a) = concat (map terminals a)"
| "terminals (ZeroOrMore a) = concat (map terminals a)"
| "terminals (Terminal s) = [s]"
| "terminals (NonTerminal s) = []"
| "terminals (Stack a) = concat (map terminals a)"
| "terminals (Comment s) = []"

fun comments :: "rr \<Rightarrow> string list" where
  "comments (Diagram a) = concat (map comments a)"
| "comments (Sequence a) = concat (map comments a)"
| "comments (Choice n a) = concat (map comments a)"
| "comments (Optional a) = concat (map comments a)"
| "comments (OneOrMore a) = concat (map comments a)"
| "comments (ZeroOrMore a) = concat (map comments a)"
| "comments (Terminal s) = []"
| "comments (NonTerminal s) = []"
| "comments (Stack a) = concat (map comments a)"
| "comments (Comment s) = [s]"

text \<open>
  What a railroad diagram accepts, as the library documents its primitives: a path from
  the start to the end passes the boxes of a sequence in order, one branch of a choice,
  an optional item or nothing, and an item once and then again any number of times,
  passing the repeat item (the second argument, if given) on each way back. A terminal
  box stands for its token, a non-terminal box for a reference to the named rule, and a
  comment for nothing.
\<close>

datatype sym = Tok string | Ref string

definition conc :: "'a list set \<Rightarrow> 'a list set \<Rightarrow> 'a list set" where
  "conc A B = {u @ v | u v. u \<in> A \<and> v \<in> B}"

definition star :: "'a list set \<Rightarrow> 'a list set" where
  "star A = {concat ws | ws. set ws \<subseteq> A}"

definition concs :: "'a list set list \<Rightarrow> 'a list set" where
  "concs Ls = foldr conc Ls {[]}"

fun lang :: "rr \<Rightarrow> sym list set" where
  "lang (Diagram a) = concs (map lang a)"
| "lang (Sequence a) = concs (map lang a)"
| "lang (Stack a) = concs (map lang a)"
| "lang (Choice n a) = (\<Union>x \<in> set a. lang x)"
| "lang (Optional []) = {[]}"
| "lang (Optional (x # a)) = insert [] (lang x)"
| "lang (OneOrMore []) = {}"
| "lang (OneOrMore [x]) = conc (lang x) (star (lang x))"
| "lang (OneOrMore (x # r # a)) = conc (lang x) (star (conc (lang r) (lang x)))"
| "lang (ZeroOrMore []) = {[]}"
| "lang (ZeroOrMore [x]) = star (lang x)"
| "lang (ZeroOrMore (x # r # a)) = insert [] (conc (lang x) (star (conc (lang r) (lang x))))"
| "lang (Terminal s) = {[Tok s]}"
| "lang (NonTerminal s) = {[Ref s]}"
| "lang (Comment s) = {[]}"

definition accepts :: "rr \<Rightarrow> sym list \<Rightarrow> bool" where
  "accepts d w \<longleftrightarrow> w \<in> lang d"

text \<open>
  The left-recursive production the chain replaces, \<^verbatim>\<open>E: X | E op X\<close>: its sentences
  grow to the right, so the first operand binds first.
\<close>

inductive_set left_rec :: "string \<Rightarrow> string set \<Rightarrow> sym list set" for X :: string and ops :: "string set" where
  operand: "[Ref X] \<in> left_rec X ops"
| operator: "w \<in> left_rec X ops \<Longrightarrow> op \<in> ops \<Longrightarrow> w @ [Tok op, Ref X] \<in> left_rec X ops"

text \<open>The operator-operand pairs for a list of operators.\<close>

definition pairs :: "string \<Rightarrow> string list \<Rightarrow> sym list" where
  "pairs X os = concat (map (\<lambda>op. [Tok op, Ref X]) os)"

section \<open>Libraries and registries at work\<close>

text \<open>
  An export is usable on an argument list when the plain call returns, or the plain call
  fails with the new-versus-call mismatch and the construction returns.
\<close>

definition usable :: "(arg list, diagram) ctor \<Rightarrow> bool" where
  "usable Ctor \<longleftrightarrow>
     (\<forall>args. (\<exists>v. call Ctor args = Inr v) \<or>
             (\<exists>e v. call Ctor args = Inl e \<and> new_mismatch e \<and> construct Ctor args = Inr v))"

definition usable_library :: "rr_module \<Rightarrow> bool" where
  "usable_library RR \<longleftrightarrow> (\<forall>p. usable (RR p))"

text \<open>What \<^verbatim>\<open>renderRuleList\<close> hands to \<^verbatim>\<open>mountRule\<close> for a name, or the exception.\<close>

definition placeholder :: "string \<Rightarrow> rr" where
  "placeholder name = Diagram [Comment (''No factory defined for '' @ name)]"

definition diagram_for :: "rr_module \<Rightarrow> (string \<rightharpoonup> factory) \<Rightarrow> string \<Rightarrow> thrown + diagram" where
  "diagram_for RR registry name =
     (case registry name of None \<Rightarrow> build RR (placeholder name) | Some factory \<Rightarrow> factory ())"

text \<open>The titled block of a rule: the \<^verbatim>\<open>div\<close> with its heading and its \<^verbatim>\<open>svgwrap\<close>.\<close>

definition heading :: "string \<Rightarrow> element" where
  "heading name = Element ''h3'' [] [] (if name = [] then [] else [TextNode name])"

definition titled_block :: "string \<Rightarrow> element \<Rightarrow> node" where
  "titled_block name svgwrap =
     Elem (Element ''div'' ''rule'' (''rule-'' @ name) [Elem (heading name), Elem svgwrap])"

definition is_titled_block :: "string \<Rightarrow> node \<Rightarrow> bool" where
  "is_titled_block name n \<longleftrightarrow> (\<exists>svgwrap. n = titled_block name svgwrap)"

text \<open>The element \<^verbatim>\<open>svgwrap\<close> as \<^verbatim>\<open>mountRule\<close> leaves it for a diagram object.\<close>

definition svgwrap_for :: "diagram \<Rightarrow> element" where
  "svgwrap_for d =
     (case try_export (Element ''div'' ''svgwrap'' [] []) d of
        (w, None) \<Rightarrow> w
      | (w, Some e) \<Rightarrow> set_textContent w (''Render error: '' @ error_text e))"

text \<open>The children a render pass has added to a section element.\<close>

definition appended :: "element \<Rightarrow> element \<Rightarrow> node list" where
  "appended before after = drop (length (children before)) (children after)"

definition append_children :: "element \<Rightarrow> node list \<Rightarrow> element" where
  "append_children e ns = Element (tag e) (className e) (ident e) (children e @ ns)"

text \<open>
  The blocks a render pass mounts for a list of names, up to the first name whose
  diagram is not obtained, and the exception thrown there.
\<close>

fun rendered_blocks ::
  "rr_module \<Rightarrow> (string \<rightharpoonup> factory) \<Rightarrow> string list \<Rightarrow> node list \<times> thrown option" where
  "rendered_blocks RR registry [] = ([], None)"
| "rendered_blocks RR registry (name # names) =
     (case diagram_for RR registry name of
        Inl e \<Rightarrow> ([], Some e)
      | Inr d \<Rightarrow>
          (case rendered_blocks RR registry names of
             (blocks, r) \<Rightarrow> (titled_block name (svgwrap_for d) # blocks, r)))"

text \<open>
  Two libraries for examples. In the first every export is a class constructor: the
  plain call throws the engine's \<^verbatim>\<open>TypeError\<close>, and the construction returns an object
  whose \<^verbatim>\<open>toSVG\<close> gives markup. In the second every export is a plain function.
\<close>

fun markup_of :: "arg \<Rightarrow> string" where
  "markup_of (Num n) = ''#''"
| "markup_of (Str s) = s"
| "markup_of (Obj (Object (Some (Inr (JString s))) ts at)) = s"
| "markup_of (Obj d) = []"

definition svg_object :: "arg list \<Rightarrow> diagram" where
  "svg_object args =
     Object (Some (Inr (JString (''<g>'' @ concat (map markup_of args) @ ''</g>'')))) None None"

definition without_new_message :: string where
  "without_new_message =
     ''Class constructor cannot be invoked without '' @ [CHR 0x27] @ ''new'' @ [CHR 0x27]"

definition class_library :: rr_module where
  "class_library p =
     \<lparr>call = (\<lambda>args. Inl (TypeError without_new_message)),
      construct = (\<lambda>args. Inr (svg_object args))\<rparr>"

definition function_library :: rr_module where
  "function_library p =
     \<lparr>call = (\<lambda>args. Inr (svg_object args)),
      construct = (\<lambda>args. Inr (svg_object args))\<rparr>"


text \<open>
  A library build in which one export is missing: invoking \<^verbatim>\<open>undefined\<close> throws a
  \<^verbatim>\<open>TypeError\<close> that is not the new-versus-call mismatch. The other exports are plain
  functions.
\<close>

definition library_without :: "prim \<Rightarrow> rr_module" where
  "library_without q p =
     (if p = q
      then \<lparr>call = (\<lambda>args. Inl (TypeError ''Ctor is not a function'')),
            construct = (\<lambda>args. Inl (TypeError ''Ctor is not a constructor''))\<rparr>
      else function_library p)"

text \<open>A factory for examples in which it is never invoked.\<close>

definition unused_factory :: factory where
  "unused_factory = (\<lambda>_. Inl (Primitive ''never invoked''))"

text \<open>
  A library in which \<^verbatim>\<open>Terminal\<close> and \<^verbatim>\<open>NonTerminal\<close> throw different exceptions, to tell
  which of the two a factory calls first.
\<close>

definition library_telling_order :: rr_module where
  "library_telling_order p =
     (if p = PTerminal
      then \<lparr>call = (\<lambda>args. Inl (OtherError ''Error'' ''Terminal called first'')),
            construct = (\<lambda>args. Inl (OtherError ''Error'' ''Terminal called first''))\<rparr>
      else if p = PNonTerminal
      then \<lparr>call = (\<lambda>args. Inl (OtherError ''Error'' ''NonTerminal called first'')),
            construct = (\<lambda>args. Inl (OtherError ''Error'' ''NonTerminal called first''))\<rparr>
      else function_library p)"

text \<open>A registry whose one factory throws when it is invoked.\<close>

definition throwing_registry :: "string \<rightharpoonup> factory" where
  "throwing_registry =
     [''broken'' \<mapsto> (\<lambda>_. Inl (OtherError ''RangeError'' ''index out of range''))]"

text \<open>The \<^verbatim>\<open>svgwrap\<close> element showing the text for a caught exception.\<close>

definition error_box :: "thrown \<Rightarrow> element" where
  "error_box e = Element ''div'' ''svgwrap'' [] [TextNode (''Render error: '' @ error_text e)]"

text \<open>An example: a diagram object whose \<^verbatim>\<open>toSVG\<close> throws and whose \<^verbatim>\<open>toString\<close> gives markup.\<close>

definition failing_toSVG :: diagram where
  "failing_toSVG =
     Object (Some (Inl (OtherError ''Error'' ''no document''))) (Some (Inr ''<svg/>'')) None"

section \<open>Properties of the strings\<close>

lemma startsWith_iff: "startsWith s q \<longleftrightarrow> (\<exists>r. s = q @ r)"
  by (induction s q rule: startsWith.induct) auto

lemma str_includes_iff: "str_includes s q \<longleftrightarrow> (\<exists>p r. s = p @ q @ r)"
proof (induction s)
  case Nil
  then show ?case by auto
next
  case (Cons x s)
  show ?case
  proof
    assume "str_includes (x # s) q"
    then consider "startsWith (x # s) q" | "str_includes s q" by auto
    then show "\<exists>p r. x # s = p @ q @ r"
    proof cases
      case 1
      then obtain r where "x # s = q @ r" by (auto simp: startsWith_iff)
      then have "x # s = [] @ q @ r" by simp
      then show ?thesis by blast
    next
      case 2
      then obtain p r where "s = p @ q @ r" using Cons.IH by blast
      then have "x # s = (x # p) @ q @ r" by simp
      then show ?thesis by blast
    qed
  next
    assume "\<exists>p r. x # s = p @ q @ r"
    then obtain p r where eq: "x # s = p @ q @ r" by blast
    show "str_includes (x # s) q"
    proof (cases p)
      case Nil
      with eq have "startsWith (x # s) q" by (auto simp: startsWith_iff)
      then show ?thesis by simp
    next
      case (Cons y p')
      with eq have "s = p' @ q @ r" by simp
      then have "str_includes s q" using Cons.IH by blast
      then show ?thesis by simp
    qed
  qed
qed

lemma toLowerCase_eq_Nil [simp]: "toLowerCase s = [] \<longleftrightarrow> s = []"
  by (simp add: toLowerCase_def)

lemma str_includes_Nil: "str_includes s []"
  by (induction s) auto

lemma test_without_new_message: "test_without_new without_new_message"
  by (simp add: test_without_new_def without_new_message_def)

section \<open>The filter\<close>

lemma spec_filter_code:
  "spec_filter query names =
     filter (\<lambda>n. str_includes (toLowerCase n) (toLowerCase query)) names"
  by (simp add: spec_filter_def str_includes_iff)

lemma filterNames_filter:
  "filterNames query names =
     filter (\<lambda>n. str_includes (toLowerCase n) (toLowerCase (trim query))) names"
  by (simp add: filterNames_def Let_def toLowerCase_def str_includes_Nil)

lemma lower_declarator: "toLowerCase ''declarator'' = ''declarator''"
  by (simp add: toLowerCase_def lower_char_def)

lemma trim_declarator: "trim ''declarator'' = ''declarator''"
  by (simp add: trim_def is_space_def)

lemma filterNames_mixed_case:
  "filterNames ''DECL'' [''declarator'', ''pointer'', ''init-declarator'', ''Declaration'']
     = [''declarator'', ''init-declarator'', ''Declaration'']"
  by (simp add: filterNames_filter trim_def is_space_def toLowerCase_def lower_char_def)

lemma filterNames_blank_query:
  "filterNames ''   '' [''declarator'', ''pointer''] = [''declarator'', ''pointer'']"
  by (simp add: filterNames_filter trim_def is_space_def toLowerCase_def lower_char_def)

text \<open>
  C8, as the code has it. \<^verbatim>\<open>filterNames\<close> keeps, in their original order, exactly the
  names whose lowercased form contains the query after it has been trimmed and
  lowercased; for the query \<^verbatim>\<open>declarator\<close> these are the names that contain
  \<^verbatim>\<open>declarator\<close> case-insensitively.
\<close>

theorem filterNames_trimmed_query:
  "filterNames query names =
     filter (\<lambda>n. \<exists>p r. toLowerCase n = p @ toLowerCase (trim query) @ r) names
   \<and> filterNames ''declarator'' names =
     filter (\<lambda>n. \<exists>p r. toLowerCase n = p @ ''declarator'' @ r) names"
  by (simp add: filterNames_filter str_includes_iff trim_declarator lower_declarator)

text \<open>
  C8 as stated fails for a query with white space around it: the query
  \<^verbatim>\<open>" declarator"\<close> is not contained in the name \<^verbatim>\<open>declarator\<close>, and the filter keeps
  the name.
\<close>

theorem filterNames_untrimmed_counterexample:
  "filterNames '' declarator'' [''declarator'', ''pointer''] = [''declarator'']
   \<and> spec_filter '' declarator'' [''declarator'', ''pointer''] = []"
  by (simp add: filterNames_filter spec_filter_code trim_def is_space_def toLowerCase_def
      lower_char_def)

section \<open>The shim\<close>



section \<open>Mounting one rule\<close>

lemma mountRule_block:
  "mountRule container name d = appendChild container (titled_block name (svgwrap_for d))"
  by (simp add: mountRule_def Let_def titled_block_def svgwrap_for_def heading_def
      createElement_def set_className_def set_id_def set_textContent_def appendChild_def
      split: prod.splits option.splits)

lemma svgwrap_cases:
  "svgwrap_for (Nullish msg) =
     Element ''div'' ''svgwrap'' [] [TextNode (''Render error: '' @ msg)]"
  "svgwrap_for (Object (Some (Inl e)) ts at) =
     Element ''div'' ''svgwrap'' [] [TextNode (''Render error: '' @ error_text e)]"
  "svgwrap_for (Object (Some (Inr (JString svg))) ts at) =
     Element ''div'' ''svgwrap'' [] [Parsed svg]"
  "svgwrap_for (Object (Some (Inr (JNode n))) ts at) = Element ''div'' ''svgwrap'' [] [n]"
  "svgwrap_for (Object (Some (Inr (JNodeLike e))) ts at) =
     Element ''div'' ''svgwrap'' [] [TextNode (''Render error: '' @ error_text e)]"
  "svgwrap_for (Object (Some (Inr JOther)) ts at) =
     Element ''div'' ''svgwrap'' [] [TextNode ''toSVG() returned an unexpected value.'']"
  "svgwrap_for (Object None (Some (Inl e)) at) =
     Element ''div'' ''svgwrap'' [] [TextNode (''Render error: '' @ error_text e)]"
  "svgwrap_for (Object None (Some (Inr s)) at) = Element ''div'' ''svgwrap'' [] [Parsed s]"
  "svgwrap_for (Object None None (Some f)) =
      (case f (Element ''div'' ''svgwrap'' [] []) of
         (w, None) \<Rightarrow> w
       | (w, Some e) \<Rightarrow> set_textContent w (''Render error: '' @ error_text e))"
  "svgwrap_for (Object None None None) =
     Element ''div'' ''svgwrap'' []
       [TextNode ''Diagram object does not support toSVG/toString/addTo in this build.'']"
  by (simp_all add: svgwrap_for_def set_textContent_def set_innerHTML_def appendChild_def)

text \<open>
  C1, as the code has it. \<^verbatim>\<open>mountRule\<close> never throws and appends one titled block.
  The export is chosen by what the diagram object offers: \<^verbatim>\<open>toSVG\<close> if it is a function
  (whatever \<^verbatim>\<open>toString\<close> and \<^verbatim>\<open>addTo\<close> are), otherwise \<^verbatim>\<open>toString\<close> if it is a function,
  otherwise \<^verbatim>\<open>addTo\<close>. Only the chosen export is attempted. If it throws, if its result
  cannot be attached, or if the description is null or undefined, the block shows the
  text of the exception; if \<^verbatim>\<open>toSVG\<close> returns neither a string nor a node, or no export
  is offered, the block shows a fixed text.
\<close>

theorem mountRule_first_available:
  "mountRule container name d = appendChild container (titled_block name (svgwrap_for d))
   \<and> svgwrap_for (Object (Some r) ts at) = svgwrap_for (Object (Some r) None None)
   \<and> svgwrap_for (Object None (Some r') at) = svgwrap_for (Object None (Some r') None)
   \<and> svgwrap_for (Object (Some (Inr (JString svg))) ts at) =
        Element ''div'' ''svgwrap'' [] [Parsed svg]
   \<and> svgwrap_for (Object (Some (Inr (JNode n))) ts at) = Element ''div'' ''svgwrap'' [] [n]
   \<and> svgwrap_for (Object None (Some (Inr s)) at) = Element ''div'' ''svgwrap'' [] [Parsed s]
   \<and> svgwrap_for (Object None None (Some f)) =
        (case f (Element ''div'' ''svgwrap'' [] []) of
           (w, None) \<Rightarrow> w
         | (w, Some e) \<Rightarrow> set_textContent w (''Render error: '' @ error_text e))
   \<and> svgwrap_for (Object (Some (Inl e)) ts at) = error_box e
   \<and> svgwrap_for (Object (Some (Inr (JNodeLike e))) ts at) = error_box e
   \<and> svgwrap_for (Object None (Some (Inl e)) at) = error_box e
   \<and> svgwrap_for (Nullish msg) = error_box (TypeError msg)
   \<and> svgwrap_for (Object (Some (Inr JOther)) ts at) =
        Element ''div'' ''svgwrap'' [] [TextNode ''toSVG() returned an unexpected value.'']
   \<and> svgwrap_for (Object None None None) =
        Element ''div'' ''svgwrap'' []
          [TextNode ''Diagram object does not support toSVG/toString/addTo in this build.'']"
proof -
  have a: "svgwrap_for (Object (Some r) ts at) = svgwrap_for (Object (Some r) None None)"
    by (simp add: svgwrap_for_def)
  have b: "svgwrap_for (Object None (Some r') at) = svgwrap_for (Object None (Some r') None)"
    by (simp add: svgwrap_for_def)
  show ?thesis
    unfolding error_box_def
    by (intro conjI mountRule_block a b svgwrap_cases) (simp add: svgwrap_cases)
qed

theorem mountRule_first_available_witness:
  "mountRule (Element ''section'' [] [] []) ''token'' failing_toSVG =
     Element ''section'' [] []
       [Elem (Element ''div'' ''rule'' ''rule-token''
          [Elem (Element ''h3'' [] [] [TextNode ''token'']),
           Elem (Element ''div'' ''svgwrap'' [] [TextNode ''Render error: no document''])])]"
  using mountRule_first_available [of "Element ''section'' [] [] []" "''token''" failing_toSVG]
  by (simp add: failing_toSVG_def svgwrap_cases appendChild_def titled_block_def heading_def)

text \<open>
  C1 as stated fails: when \<^verbatim>\<open>toSVG\<close> throws and \<^verbatim>\<open>toString\<close> would give markup, the
  fallback of the specification mounts the markup, and \<^verbatim>\<open>mountRule\<close> shows the error
  text without attempting \<^verbatim>\<open>toString\<close>.
\<close>

theorem mountRule_no_fallback_counterexample:
  "spec_first_success (Element ''div'' ''svgwrap'' [] []) failing_toSVG
     = Some (Element ''div'' ''svgwrap'' [] [Parsed ''<svg/>''])
   \<and> svgwrap_of (last (children (mountRule (Element ''section'' [] [] []) ''token'' failing_toSVG)))
     = Some (Elem (Element ''div'' ''svgwrap'' [] [TextNode ''Render error: no document'']))"
  by (simp add: spec_first_success_def failing_toSVG_def mountRule_block svgwrap_cases
      set_innerHTML_def appendChild_def titled_block_def)

section \<open>The precedence chain\<close>

lemma conc_Nil_right: "conc A {[]} = A"
  by (auto simp: conc_def)

lemma concs_two: "concs [A, B] = conc A B"
  by (simp add: concs_def conc_Nil_right)

lemma lang_chain:
  "lang (chain X ops) = conc {[Ref X]} (star (conc (\<Union>op \<in> set ops. {[Tok op]}) {[Ref X]}))"
  by (simp add: chain_def T_def NT_def concs_two)

lemma star_pairs:
  "star (conc (\<Union>op \<in> S. {[Tok op]}) {[Ref X]}) = {pairs X os | os. set os \<subseteq> S}"
proof (intro set_eqI iffI)
  fix w assume "w \<in> star (conc (\<Union>op \<in> S. {[Tok op]}) {[Ref X]})"
  then obtain ws where w: "w = concat ws"
    and ws: "set ws \<subseteq> conc (\<Union>op \<in> S. {[Tok op]}) {[Ref X]}"
    by (auto simp: star_def)
  from ws have "\<exists>os. set os \<subseteq> S \<and> ws = map (\<lambda>op. [Tok op, Ref X]) os"
  proof (induction ws)
    case Nil
    then show ?case by simp
  next
    case (Cons v ws)
    then obtain os where os: "set os \<subseteq> S" "ws = map (\<lambda>op. [Tok op, Ref X]) os" by auto
    from Cons.prems obtain op where op: "op \<in> S" "v = [Tok op, Ref X]"
      by (auto simp: conc_def)
    have "set (op # os) \<subseteq> S \<and> v # ws = map (\<lambda>op. [Tok op, Ref X]) (op # os)"
      using os op by simp
    then show ?case by (rule exI)
  qed
  then show "w \<in> {pairs X os | os. set os \<subseteq> S}" using w by (auto simp: pairs_def)
next
  fix w assume "w \<in> {pairs X os | os. set os \<subseteq> S}"
  then obtain os where os: "set os \<subseteq> S" "w = pairs X os" by auto
  have "set (map (\<lambda>op. [Tok op, Ref X]) os) \<subseteq> conc (\<Union>op \<in> S. {[Tok op]}) {[Ref X]}"
    using os(1) by (auto simp: conc_def)
  then show "w \<in> star (conc (\<Union>op \<in> S. {[Tok op]}) {[Ref X]})"
    unfolding star_def pairs_def os(2) by blast
qed

lemma lang_chain_pairs:
  "lang (chain X ops) = {Ref X # pairs X os | os. set os \<subseteq> set ops}"
proof -
  have "lang (chain X ops) = conc {[Ref X]} {pairs X os | os. set os \<subseteq> set ops}"
    unfolding lang_chain star_pairs ..
  also have "\<dots> = {Ref X # pairs X os | os. set os \<subseteq> set ops}"
    unfolding conc_def by auto
  finally show ?thesis .
qed

lemma left_rec_pairs: "left_rec X S = {Ref X # pairs X os | os. set os \<subseteq> S}"
proof (intro set_eqI iffI)
  fix w assume "w \<in> left_rec X S"
  then have "\<exists>os. set os \<subseteq> S \<and> w = Ref X # pairs X os"
  proof induction
    case operand
    have "set [] \<subseteq> S \<and> [Ref X] = Ref X # pairs X []" by (simp add: pairs_def)
    then show ?case by blast
  next
    case (operator w op)
    then obtain os where "set os \<subseteq> S" "w = Ref X # pairs X os" by blast
    then have "set (os @ [op]) \<subseteq> S \<and> w @ [Tok op, Ref X] = Ref X # pairs X (os @ [op])"
      using operator.hyps(2) by (simp add: pairs_def)
    then show ?case by blast
  qed
  then show "w \<in> {Ref X # pairs X os | os. set os \<subseteq> S}" by blast
next
  fix w assume "w \<in> {Ref X # pairs X os | os. set os \<subseteq> S}"
  then obtain os where os: "set os \<subseteq> S" and w: "w = Ref X # pairs X os" by blast
  from os have "Ref X # pairs X os \<in> left_rec X S"
  proof (induction os rule: rev_induct)
    case Nil
    show ?case by (simp add: pairs_def left_rec.operand)
  next
    case (snoc op os)
    then have "Ref X # pairs X os \<in> left_rec X S" "op \<in> S" by auto
    then have "(Ref X # pairs X os) @ [Tok op, Ref X] \<in> left_rec X S"
      by (rule left_rec.operator)
    then show ?case by (simp add: pairs_def)
  qed
  then show "w \<in> left_rec X S" using w by simp
qed

text \<open>
  C5. What \<^verbatim>\<open>chain(X, ops)\<close> builds accepts exactly the operand followed by any number
  of operator-operand pairs with operators from \<^verbatim>\<open>ops\<close>: \<^verbatim>\<open>X\<close>, \<^verbatim>\<open>X op1 X\<close>,
  \<^verbatim>\<open>X op1 X op2 X\<close> and so on. These are the sentences of the left-recursive production
  \<^verbatim>\<open>E: X | E op X\<close>, which grow to the right of the first operand. Nothing that starts
  with an operator is accepted.
\<close>

theorem chain_precedence_law:
  "lang (chain X ops) = left_rec X (set ops)
   \<and> lang (chain X ops) =
       {Ref X # concat (map (\<lambda>op. [Tok op, Ref X]) os) | os. set os \<subseteq> set ops}
   \<and> accepts (chain X (op1 # op2 # rest)) [Ref X]
   \<and> accepts (chain X (op1 # op2 # rest)) [Ref X, Tok op1, Ref X]
   \<and> accepts (chain X (op1 # op2 # rest)) [Ref X, Tok op1, Ref X, Tok op2, Ref X]
   \<and> (\<forall>op w. \<not> accepts (chain X ops) (Tok op # w))"
proof -
  have a: "lang (chain X ops) = left_rec X (set ops)"
    by (simp add: lang_chain_pairs left_rec_pairs)
  have b: "lang (chain X ops) =
       {Ref X # concat (map (\<lambda>op. [Tok op, Ref X]) os) | os. set os \<subseteq> set ops}"
    by (simp add: lang_chain_pairs pairs_def)
  let ?c = "chain X (op1 # op2 # rest)"
  have "set [] \<subseteq> set (op1 # op2 # rest) \<and> [Ref X] = Ref X # pairs X []"
    by (simp add: pairs_def)
  then have c: "accepts ?c [Ref X]"
    unfolding accepts_def lang_chain_pairs by blast
  have "set [op1] \<subseteq> set (op1 # op2 # rest) \<and> [Ref X, Tok op1, Ref X] = Ref X # pairs X [op1]"
    by (simp add: pairs_def)
  then have d: "accepts ?c [Ref X, Tok op1, Ref X]"
    unfolding accepts_def lang_chain_pairs by blast
  have "set [op1, op2] \<subseteq> set (op1 # op2 # rest)
      \<and> [Ref X, Tok op1, Ref X, Tok op2, Ref X] = Ref X # pairs X [op1, op2]"
    by (simp add: pairs_def)
  then have e: "accepts ?c [Ref X, Tok op1, Ref X, Tok op2, Ref X]"
    unfolding accepts_def lang_chain_pairs by blast
  have f: "\<forall>op w. \<not> accepts (chain X ops) (Tok op # w)"
    by (auto simp: accepts_def lang_chain_pairs)
  show ?thesis by (intro conjI a b c d e f)
qed

section \<open>Building a description\<close>

lemma callOrNew_usable: "usable Ctor \<Longrightarrow> \<exists>v. callOrNew Ctor args = Inr v"
proof -
  assume "usable Ctor"
  then consider v where "call Ctor args = Inr v"
    | e v where "call Ctor args = Inl e" "new_mismatch e" "construct Ctor args = Inr v"
    unfolding usable_def by blast
  then show ?thesis
  proof cases
    case 1
    then show ?thesis by (simp add: callOrNew_def)
  next
    case 2
    then show ?thesis by (cases e) (simp_all add: callOrNew_def)
  qed
qed

text \<open>With a library whose exports are all usable, every factory of the module returns.\<close>

lemma build_usable:
  "usable_library RR \<Longrightarrow> \<exists>d. build RR t = Inr d"
  "usable_library RR \<Longrightarrow> \<exists>ds. build_list RR ts = Inr ds"
proof (induction RR t and RR ts rule: build_build_list.induct)
  case (11 RR)
  show ?case by simp
next
  case (12 RR x xs)
  then show ?case by auto
qed (auto simp: invoke_def usable_library_def intro!: callOrNew_usable)

lemma usable_class_library: "usable_library class_library"
  by (simp add: usable_library_def usable_def class_library_def test_without_new_message)

lemma usable_function_library: "usable_library function_library"
  by (simp add: usable_library_def usable_def function_library_def)

section \<open>The render loop\<close>

lemma renderRuleList_step:
  "renderRuleList RR c registry (name # names) =
     (case diagram_for RR registry name of
        Inl e \<Rightarrow> (c, Some e)
      | Inr d \<Rightarrow> renderRuleList RR (mountRule c name d) registry names)"
  by (simp add: diagram_for_def placeholder_def split: option.splits)

lemma append_children_Nil: "append_children c [] = c"
  by (cases c) (simp add: append_children_def)

lemma append_children_Cons:
  "append_children (appendChild c n) ns = append_children c (n # ns)"
  by (simp add: append_children_def appendChild_def)

lemma renderRuleList_blocks:
  "renderRuleList RR c registry names =
     (append_children c (fst (rendered_blocks RR registry names)),
      snd (rendered_blocks RR registry names))"
proof (induction names arbitrary: c)
  case Nil
  show ?case by (simp add: append_children_Nil)
next
  case (Cons name names)
  show ?case
  proof (cases "diagram_for RR registry name")
    case (Inl e)
    then show ?thesis
      by (simp add: renderRuleList_step append_children_Nil del: renderRuleList.simps)
  next
    case (Inr d)
    then show ?thesis
      by (simp add: renderRuleList_step Cons.IH mountRule_block append_children_Cons
          split: prod.splits del: renderRuleList.simps)
  qed
qed

lemma rendered_blocks_all:
  assumes "\<forall>n \<in> set names. \<exists>d. diagram_for RR registry n = Inr d"
  shows "snd (rendered_blocks RR registry names) = None
         \<and> list_all2 is_titled_block names (fst (rendered_blocks RR registry names))"
  using assms
proof (induction names)
  case Nil
  show ?case by simp
next
  case (Cons name names)
  then obtain d where d: "diagram_for RR registry name = Inr d" by auto
  have "is_titled_block name (titled_block name (svgwrap_for d))"
    unfolding is_titled_block_def by blast
  with Cons d show ?case by (auto split: prod.splits)
qed

lemma appended_append_children: "appended c (append_children c ns) = ns"
  by (simp add: appended_def append_children_def)

lemma rendered_blocks_cong:
  "\<forall>n \<in> set names. R1 n = R2 n \<Longrightarrow> rendered_blocks RR R1 names = rendered_blocks RR R2 names"
proof (induction names)
  case Nil
  show ?case by simp
next
  case (Cons name names)
  then have "diagram_for RR R1 name = diagram_for RR R2 name"
    and "rendered_blocks RR R1 names = rendered_blocks RR R2 names"
    by (simp_all add: diagram_for_def)
  then show ?case by (simp split: sum.splits)
qed

lemma renderRuleList_aborted:
  "diagram_for RR registry name = Inl e \<Longrightarrow>
     renderRuleList RR c registry (name # names) = (c, Some e)"
  by (simp add: renderRuleList_step del: renderRuleList.simps)

section \<open>The registry and the section index\<close>

lemma run_factory_usable: "usable_library RR \<Longrightarrow> \<exists>v. run_factory RR cs d = Inr v"
proof -
  assume u: "usable_library RR"
  then obtain os where "build_list RR cs = Inr os" using build_usable(2) by blast
  then show ?thesis using build_usable(1) [OF u] by (simp add: run_factory_def)
qed

lemma diagram_for_usable:
  "usable_library RR \<Longrightarrow> \<exists>d. diagram_for RR (rules RR) name = Inr d"
  by (cases "rule_descriptions name")
    (simp_all add: diagram_for_def rules_def build_usable run_factory_usable)

text \<open>
  With a usable library the module's registry renders every list of names to the end,
  one block per name.
\<close>

lemma renderRuleList_usable_library:
  assumes "usable_library RR"
  shows "snd (renderRuleList RR c (rules RR) names) = None
         \<and> list_all2 is_titled_block names (appended c (fst (renderRuleList RR c (rules RR) names)))"
proof -
  have "\<forall>n \<in> set names. \<exists>d. diagram_for RR (rules RR) n = Inr d"
    using assms by (simp add: diagram_for_usable)
  from rendered_blocks_all [OF this] show ?thesis
    by (simp add: renderRuleList_blocks appended_append_children del: renderRuleList.simps)
qed

lemma dom_foldl_map_set: "dom (foldl map_set m kvs) = dom m \<union> fst ` set kvs"
  by (induction kvs arbitrary: m) (auto simp: map_set_def)

lemma dom_rule_descriptions: "dom rule_descriptions = fst ` set rules_table"
  by (simp add: rule_descriptions_def dom_foldl_map_set)

lemma run_factory_Nil: "run_factory RR [] d = build RR d"
  by (simp add: run_factory_def)

lemma rules_None: "rule_descriptions name = None \<Longrightarrow> rules RR name = None"
  by (simp add: rules_def)

lemma rules_lookup:
  "local_constants name = [] \<Longrightarrow>
     rules RR name = map_option (\<lambda>d. (\<lambda>_. build RR d)) (rule_descriptions name)"
  by (simp add: rules_def run_factory_Nil)

lemma no_constants_token: "local_constants ''token'' = []"
  by (simp add: local_constants_def rule_constants_def)

lemma no_constants_multiplicative: "local_constants ''multiplicative-expression'' = []"
  by (simp add: local_constants_def rule_constants_def)

lemma no_constants_compound_literal: "local_constants ''compound-literal'' = []"
  by (simp add: local_constants_def rule_constants_def)

lemma dom_rules: "dom (rules RR) = fst ` set rules_table"
  by (auto simp: rules_def dom_rule_descriptions [symmetric] dom_def)

lemma section_names_in_table:
  "set (concat (map snd section_rules)) \<subseteq> fst ` set rules_table"
  by (simp add: section_rules_def rules_table_def)

lemma lookup_token: "rule_descriptions ''token'' = Some rule_token"
  by (simp add: rule_descriptions_def rules_table_def map_set_def)

lemma lookup_keyword: "rule_descriptions ''keyword'' = None"
  by (simp add: rule_descriptions_def rules_table_def map_set_def)

lemma lookup_no_such_rule: "rule_descriptions ''no-such-rule'' = None"
  by (simp add: rule_descriptions_def rules_table_def map_set_def)

lemma lookup_multiplicative:
  "rule_descriptions ''multiplicative-expression'' = Some rule_multiplicative_expression"
  by (simp add: rule_descriptions_def rules_table_def map_set_def)

lemma lookup_compound_literal:
  "rule_descriptions ''compound-literal'' = Some rule_compound_literal"
  by (simp add: rule_descriptions_def rules_table_def map_set_def)

lemma token_in_table: "(''token'', rule_token) \<in> set rules_table"
  by (simp add: rules_table_def)

lemma build_token_class:
  "build class_library rule_token = Inr (svg_object [Obj (svg_object
     [Num 0, Obj (svg_object [Str ''keyword'']), Obj (svg_object [Str ''identifier'']),
      Obj (svg_object [Str ''constant'']), Obj (svg_object [Str ''string-literal'']),
      Obj (svg_object [Str ''punctuator''])])])"
  by (simp add: rule_token_def NT_def invoke_def callOrNew_def class_library_def
      test_without_new_message)

lemma build_placeholder_class:
  "build class_library (placeholder name) =
     Inr (svg_object [Obj (svg_object [Str (''No factory defined for '' @ name)])])"
  by (simp add: placeholder_def invoke_def callOrNew_def class_library_def
      test_without_new_message)

lemma svgwrap_for_svg_object:
  "svgwrap_for (svg_object args) =
     Element ''div'' ''svgwrap'' [] [Parsed (''<g>'' @ concat (map markup_of args) @ ''</g>'')]"
  by (simp add: svg_object_def svgwrap_cases)

lemma markup_of_svg_object:
  "markup_of (Obj (svg_object args)) = ''<g>'' @ concat (map markup_of args) @ ''</g>''"
  by (simp add: svg_object_def)

lemma diagram_for_token_class:
  "diagram_for class_library (rules class_library) ''token'' = build class_library rule_token"
  by (simp add: diagram_for_def rules_lookup no_constants_token lookup_token)

lemma diagram_for_no_such_rule_class:
  "diagram_for class_library (rules class_library) ''no-such-rule''
     = build class_library (placeholder ''no-such-rule'')"
  by (simp add: diagram_for_def rules_None lookup_no_such_rule)

lemma render_token_class:
  "renderRuleList class_library (createElement ''section'') (rules class_library) [''token'']
     = (Element ''section'' [] []
          [Elem (Element ''div'' ''rule'' ''rule-token''
             [Elem (Element ''h3'' [] [] [TextNode ''token'']),
              Elem (Element ''div'' ''svgwrap'' []
                [Parsed (''<g><g>#<g>keyword</g><g>identifier</g><g>constant</g>''
                   @ ''<g>string-literal</g><g>punctuator</g></g></g>'')])])],
        None)"
  by (simp add: renderRuleList_step diagram_for_token_class build_token_class mountRule_block
      svgwrap_for_svg_object markup_of_svg_object appendChild_def createElement_def
      titled_block_def heading_def del: renderRuleList.simps(2))

lemma lookup_postfix_expression:
  "rule_descriptions ''postfix-expression'' = Some rule_postfix_expression"
  by (simp add: rule_descriptions_def rules_table_def map_set_def)

text \<open>
  The factory of \<^verbatim>\<open>postfix-expression\<close> builds its constant \<^verbatim>\<open>postfixSuffix\<close> first, whose
  first call is \<^verbatim>\<open>T("[")\<close>, although the expression it returns begins with
  \<^verbatim>\<open>NT("primary-expression")\<close>.
\<close>

lemma postfix_expression_builds_constant_first:
  "\<exists>factory. rules library_telling_order ''postfix-expression'' = Some factory
      \<and> factory () = Inl (OtherError ''Error'' ''Terminal called first'')
      \<and> build library_telling_order rule_postfix_expression
          = Inl (OtherError ''Error'' ''NonTerminal called first'')"
proof -
  have c: "local_constants ''postfix-expression'' = [postfix_expression_postfixSuffix]"
    by (simp add: local_constants_def rule_constants_def)
  have a: "run_factory library_telling_order [postfix_expression_postfixSuffix]
             rule_postfix_expression = Inl (OtherError ''Error'' ''Terminal called first'')"
    by (simp add: run_factory_def postfix_expression_postfixSuffix_def T_def invoke_def
        callOrNew_def library_telling_order_def)
  have b: "build library_telling_order rule_postfix_expression
          = Inl (OtherError ''Error'' ''NonTerminal called first'')"
    by (simp add: rule_postfix_expression_def NT_def invoke_def callOrNew_def
        library_telling_order_def)
  show ?thesis
    using a b by (simp add: rules_def lookup_postfix_expression c)
qed

text \<open>
  C7. Every rule name that \<^verbatim>\<open>renderAllSections\<close> passes in one of its six name lists is
  a key of the registry: looking it up gives a factory.
\<close>

theorem section_names_registered:
  "set (concat (map snd section_rules)) \<subseteq> dom (rules RR)"
  by (simp only: dom_rules section_names_in_table)

lemma lang_Diagram_single: "lang (Diagram [d]) = lang d"
  by (simp add: concs_def conc_Nil_right)

lemma pairs_single_iff: "pairs X os = [Tok op, Ref X] \<longleftrightarrow> os = [op]"
proof (cases os)
  case Nil
  then show ?thesis by (simp add: pairs_def)
next
  case (Cons o os')
  then show ?thesis by (cases os') (auto simp: pairs_def)
qed

lemma accepts_chain_one_operator:
  "accepts (chain X ops) [Ref X, Tok op, Ref X] \<longleftrightarrow> op \<in> set ops"
proof -
  have "accepts (chain X ops) [Ref X, Tok op, Ref X]
          \<longleftrightarrow> (\<exists>os. set os \<subseteq> set ops \<and> pairs X os = [Tok op, Ref X])"
    unfolding accepts_def lang_chain_pairs by (auto simp: eq_commute [of "pairs X _"])
  also have "\<dots> \<longleftrightarrow> op \<in> set ops"
    by (auto simp: pairs_single_iff)
  finally show ?thesis .
qed

text \<open>
  C6. The factory registered for \<^verbatim>\<open>multiplicative-expression\<close> returns the diagram of
  the chain with operand \<^verbatim>\<open>cast-expression\<close> and the operators \<^verbatim>\<open>*\<close>, \<^verbatim>\<open>/\<close> and \<^verbatim>\<open>%\<close>:
  the only rule it references is \<^verbatim>\<open>cast-expression\<close>, its terminals are the three
  operators, and between two operands it accepts exactly these three.
\<close>

theorem multiplicative_expression_rule:
  "rules RR ''multiplicative-expression'' = Some (\<lambda>_. build RR rule_multiplicative_expression)
   \<and> rule_multiplicative_expression = Diagram [chain ''cast-expression'' [''*'', ''/'', ''%'']]
   \<and> set (nt_refs rule_multiplicative_expression) = {''cast-expression''}
   \<and> terminals rule_multiplicative_expression = [''*'', ''/'', ''%'']
   \<and> lang rule_multiplicative_expression = left_rec ''cast-expression'' {''*'', ''/'', ''%''}
   \<and> (\<forall>op. accepts rule_multiplicative_expression
               [Ref ''cast-expression'', Tok op, Ref ''cast-expression'']
             \<longleftrightarrow> op \<in> {''*'', ''/'', ''%''})"
proof -
  have a: "rules RR ''multiplicative-expression''
             = Some (\<lambda>_. build RR rule_multiplicative_expression)"
    by (simp add: rules_lookup no_constants_multiplicative lookup_multiplicative)
  have b: "rule_multiplicative_expression = Diagram [chain ''cast-expression'' [''*'', ''/'', ''%'']]"
    by (rule rule_multiplicative_expression_def)
  have c: "set (nt_refs rule_multiplicative_expression) = {''cast-expression''}"
    by (simp add: b chain_def NT_def T_def)
  have d: "terminals rule_multiplicative_expression = [''*'', ''/'', ''%'']"
    by (simp add: b chain_def NT_def T_def)
  have e: "lang rule_multiplicative_expression = left_rec ''cast-expression'' {''*'', ''/'', ''%''}"
    unfolding b lang_Diagram_single by (simp add: lang_chain_pairs left_rec_pairs)
  have f: "\<forall>op. accepts rule_multiplicative_expression
               [Ref ''cast-expression'', Tok op, Ref ''cast-expression'']
             \<longleftrightarrow> op \<in> {''*'', ''/'', ''%''}"
    using accepts_chain_one_operator [of "''cast-expression''" "[''*'', ''/'', ''%'']"]
    unfolding b accepts_def lang_Diagram_single by simp
  show ?thesis by (intro conjI a b c d e f)
qed

text \<open>
  C3. When a requested name has no factory in the registry and the library builds the
  comment and the diagram of the placeholder, \<^verbatim>\<open>renderRuleList\<close> does not throw at that
  name: it mounts the titled block of the name, showing what the library made of
  \<^verbatim>\<open>Diagram(Comment("No factory defined for <name>"))\<close>, and goes on with the remaining
  names.
\<close>

theorem missing_factory_placeholder:
  assumes "registry name = None"
    and "callOrNew (RR PComment) [Str (''No factory defined for '' @ name)] = Inr cm"
    and "callOrNew (RR PDiagram) [Obj cm] = Inr d"
  shows "renderRuleList RR sectionRoot registry (name # names)
           = renderRuleList RR (appendChild sectionRoot (titled_block name (svgwrap_for d)))
               registry names
         \<and> renderRuleList RR sectionRoot registry [name]
           = (appendChild sectionRoot (titled_block name (svgwrap_for d)), None)"
  using assms by (simp add: invoke_def mountRule_block)

theorem missing_factory_placeholder_witness:
  "rules class_library ''no-such-rule'' = None
   \<and> callOrNew (class_library PComment) [Str (''No factory defined for '' @ ''no-such-rule'')]
       = Inr (svg_object [Str ''No factory defined for no-such-rule''])
   \<and> callOrNew (class_library PDiagram) [Obj (svg_object [Str ''No factory defined for no-such-rule''])]
       = Inr (svg_object [Obj (svg_object [Str ''No factory defined for no-such-rule''])])
   \<and> renderRuleList class_library (createElement ''section'') (rules class_library) [''no-such-rule'']
       = (Element ''section'' [] []
            [Elem (Element ''div'' ''rule'' ''rule-no-such-rule''
               [Elem (Element ''h3'' [] [] [TextNode ''no-such-rule'']),
                Elem (Element ''div'' ''svgwrap'' []
                  [Parsed ''<g><g>No factory defined for no-such-rule</g></g>''])])],
          None)"
proof -
  have a: "rules class_library ''no-such-rule'' = None"
    by (simp add: rules_None lookup_no_such_rule)
  have b: "callOrNew (class_library PComment) [Str (''No factory defined for '' @ ''no-such-rule'')]
       = Inr (svg_object [Str ''No factory defined for no-such-rule''])"
    by (simp add: callOrNew_def class_library_def test_without_new_message)
  have c: "callOrNew (class_library PDiagram) [Obj (svg_object [Str ''No factory defined for no-such-rule''])]
       = Inr (svg_object [Obj (svg_object [Str ''No factory defined for no-such-rule''])])"
    by (simp add: callOrNew_def class_library_def test_without_new_message)
  from missing_factory_placeholder [where registry = "rules class_library"
      and name = "''no-such-rule''" and RR = class_library
      and sectionRoot = "createElement ''section''" and names = "[]", OF a b c]
  have "renderRuleList class_library (createElement ''section'') (rules class_library) [''no-such-rule'']
       = (appendChild (createElement ''section'')
            (titled_block ''no-such-rule''
               (svgwrap_for (svg_object [Obj (svg_object [Str ''No factory defined for no-such-rule''])]))),
          None)"
    by simp
  then have d: "renderRuleList class_library (createElement ''section'') (rules class_library) [''no-such-rule'']
       = (Element ''section'' [] []
            [Elem (Element ''div'' ''rule'' ''rule-no-such-rule''
               [Elem (Element ''h3'' [] [] [TextNode ''no-such-rule'']),
                Elem (Element ''div'' ''svgwrap'' []
                  [Parsed ''<g><g>No factory defined for no-such-rule</g></g>''])])],
          None)"
    by (simp add: svgwrap_for_svg_object markup_of_svg_object appendChild_def createElement_def
        titled_block_def heading_def del: renderRuleList.simps)
  show ?thesis using a b c d by (intro conjI)
qed

text \<open>
  C4, as the code has it. Rendering consults the registry for the requested names only:
  two registries that agree on the requested names give the same result, whatever they
  hold for the names the descriptions refer to. A non-terminal reference is handed to the
  library as a \<^verbatim>\<open>NonTerminal\<close> box and is never looked up, so an unregistered reference
  gets no placeholder and causes no failure of its own.
\<close>

theorem references_not_resolved:
  assumes "\<forall>n \<in> set names. R1 n = R2 n"
  shows "renderRuleList RR c R1 names = renderRuleList RR c R2 names
         \<and> build RR (NT r) = callOrNew (RR PNonTerminal) [Str r]"
  using rendered_blocks_cong [OF assms]
  by (simp add: renderRuleList_blocks NT_def del: renderRuleList.simps)

theorem references_not_resolved_witness:
  "''keyword'' \<in> set (nt_refs rule_token)
   \<and> rules class_library ''keyword'' = None
   \<and> rules class_library ''token'' = ((rules class_library)(''keyword'' \<mapsto> unused_factory)) ''token''
   \<and> renderRuleList class_library (createElement ''section'') (rules class_library) [''token'']
     = renderRuleList class_library (createElement ''section'')
         ((rules class_library)(''keyword'' \<mapsto> unused_factory)) [''token'']
   \<and> renderRuleList class_library (createElement ''section'') (rules class_library) [''token'']
     = (Element ''section'' [] []
          [Elem (Element ''div'' ''rule'' ''rule-token''
             [Elem (Element ''h3'' [] [] [TextNode ''token'']),
              Elem (Element ''div'' ''svgwrap'' []
                [Parsed (''<g><g>#<g>keyword</g><g>identifier</g><g>constant</g>''
                   @ ''<g>string-literal</g><g>punctuator</g></g></g>'')])])],
        None)"
proof -
  have a: "''keyword'' \<in> set (nt_refs rule_token)"
    by (simp add: rule_token_def NT_def)
  have b: "rules class_library ''keyword'' = None"
    by (simp add: rules_None lookup_keyword)
  have c: "rules class_library ''token''
             = ((rules class_library)(''keyword'' \<mapsto> unused_factory)) ''token''"
    by simp
  then have h: "\<forall>n \<in> set [''token'']. rules class_library n
             = ((rules class_library)(''keyword'' \<mapsto> unused_factory)) n"
    by simp
  have d: "renderRuleList class_library (createElement ''section'') (rules class_library) [''token'']
     = renderRuleList class_library (createElement ''section'')
         ((rules class_library)(''keyword'' \<mapsto> unused_factory)) [''token'']"
    by (rule conjunct1 [OF references_not_resolved [OF h]])
  show ?thesis using a b c d render_token_class by (intro conjI)
qed

text \<open>
  C4 as stated fails: the description registered for \<^verbatim>\<open>token\<close> refers to \<^verbatim>\<open>keyword\<close>,
  which is not a key of the registry, and carries no placeholder for it (it has no
  comment at all).
\<close>

theorem unregistered_reference_counterexample:
  "(''token'', rule_token) \<in> set rules_table
   \<and> ''keyword'' \<in> set (nt_refs rule_token)
   \<and> rule_descriptions ''keyword'' = None
   \<and> comments rule_token = []"
  by (simp add: token_in_table lookup_keyword) (simp add: rule_token_def NT_def)

text \<open>
  C10, as the code has it. When the diagram of every name in the list is obtained (the
  registered factory returns or, for a name without a factory, the library builds the
  placeholder), \<^verbatim>\<open>renderRuleList\<close> returns normally and has appended exactly one block
  per name, in the order of the list, each a \<^verbatim>\<open>div\<close> of class \<^verbatim>\<open>rule\<close> with the id
  \<^verbatim>\<open>rule-<name>\<close> and an \<^verbatim>\<open>h3\<close> heading holding the name. Nothing is assumed of the
  diagram objects: a block is mounted also when the export fails.
\<close>

theorem renderRuleList_one_block_per_name:
  assumes "\<forall>n \<in> set names. \<exists>d. diagram_for RR registry n = Inr d"
  shows "\<exists>blocks. renderRuleList RR sectionRoot registry names
                    = (append_children sectionRoot blocks, None)
                 \<and> length blocks = length names
                 \<and> list_all2 is_titled_block names blocks"
proof -
  let ?bs = "fst (rendered_blocks RR registry names)"
  from rendered_blocks_all [OF assms]
  have n: "snd (rendered_blocks RR registry names) = None"
    and t: "list_all2 is_titled_block names ?bs" by simp_all
  from t have l: "length ?bs = length names" by (simp add: list_all2_lengthD)
  have "renderRuleList RR sectionRoot registry names = (append_children sectionRoot ?bs, None)"
    using n by (simp add: renderRuleList_blocks del: renderRuleList.simps)
  with l t show ?thesis by blast
qed

theorem renderRuleList_one_block_per_name_witness:
  "(\<exists>d. diagram_for class_library (rules class_library) ''token'' = Inr d)
   \<and> (\<exists>d. diagram_for class_library (rules class_library) ''no-such-rule'' = Inr d)
   \<and> (\<exists>blocks. renderRuleList class_library (createElement ''section'') (rules class_library)
                  [''token'', ''no-such-rule'']
                = (append_children (createElement ''section'') blocks, None)
              \<and> length blocks = length [''token'', ''no-such-rule'']
              \<and> list_all2 is_titled_block [''token'', ''no-such-rule''] blocks)"
proof -
  have a: "\<exists>d. diagram_for class_library (rules class_library) ''token'' = Inr d"
    by (simp add: diagram_for_token_class build_token_class)
  have b: "\<exists>d. diagram_for class_library (rules class_library) ''no-such-rule'' = Inr d"
    by (simp add: diagram_for_no_such_rule_class build_placeholder_class)
  from a b have h: "\<forall>n \<in> set [''token'', ''no-such-rule''].
      \<exists>d. diagram_for class_library (rules class_library) n = Inr d"
    by simp
  show ?thesis
    using a b renderRuleList_one_block_per_name [OF h, of "createElement ''section''"]
    by (intro conjI)
qed

text \<open>
  C10 as stated fails: the factory is invoked outside any \<^verbatim>\<open>try\<close>. With a registry
  whose factory for \<^verbatim>\<open>broken\<close> throws, the pass over two names ends at the first and
  mounts no block. The same happens with the module's own registry when the library
  lacks the \<^verbatim>\<open>Optional\<close> export that the factory of \<^verbatim>\<open>compound-literal\<close> calls: no
  block is mounted, not even for \<^verbatim>\<open>token\<close>.
\<close>

theorem renderRuleList_throwing_factory_counterexample:
  "renderRuleList function_library (Element ''section'' [] [] []) throwing_registry
     [''broken'', ''last'']
   = (Element ''section'' [] [] [], Some (OtherError ''RangeError'' ''index out of range''))
   \<and> renderRuleList (library_without POptional) (Element ''section'' [] [] [])
       (rules (library_without POptional)) [''compound-literal'', ''token'']
   = (Element ''section'' [] [] [], Some (TypeError ''Ctor is not a function''))"
proof -
  have "diagram_for function_library throwing_registry ''broken''
          = Inl (OtherError ''RangeError'' ''index out of range'')"
    by (simp add: diagram_for_def throwing_registry_def)
  then have a: "renderRuleList function_library (Element ''section'' [] [] []) throwing_registry
     [''broken'', ''last'']
   = (Element ''section'' [] [] [], Some (OtherError ''RangeError'' ''index out of range''))"
    by (rule renderRuleList_aborted)
  have "build (library_without POptional) rule_compound_literal
          = Inl (TypeError ''Ctor is not a function'')"
    by (simp add: rule_compound_literal_def NT_def T_def invoke_def callOrNew_def
        library_without_def function_library_def test_without_new_def)
  then have "diagram_for (library_without POptional) (rules (library_without POptional))
               ''compound-literal'' = Inl (TypeError ''Ctor is not a function'')"
    by (simp add: diagram_for_def rules_lookup no_constants_compound_literal
        lookup_compound_literal)
  then have b: "renderRuleList (library_without POptional) (Element ''section'' [] [] [])
       (rules (library_without POptional)) [''compound-literal'', ''token'']
   = (Element ''section'' [] [] [], Some (TypeError ''Ctor is not a function''))"
    by (rule renderRuleList_aborted)
  show ?thesis by (intro conjI a b)
qed

end
